theory Spec2Isabelle
  imports Main
begin

section \<open>JavaScript strings\<close>

text \<open>
  A JavaScript string is a sequence of code units. The model uses \<^typ>\<open>string\<close>, so a code
  unit is a \<^typ>\<open>char\<close> (the values 0 to 255). Only the built-ins the clients call are
  modelled, each on that range.
\<close>

text \<open>\<^verbatim>\<open>String.prototype.trim\<close>: the ECMAScript white space and line terminator code units
  below 256 are TAB, LF, VT, FF, CR, SPACE and NBSP.\<close>

definition isWhiteSpace :: "char \<Rightarrow> bool" where
  "isWhiteSpace c \<longleftrightarrow>
     c \<in> set [CHR 0x09, CHR 0x0A, CHR 0x0B, CHR 0x0C, CHR 0x0D, CHR 0x20, CHR 0xA0]"

definition trim :: "string \<Rightarrow> string" where
  "trim s = rev (dropWhile isWhiteSpace (rev (dropWhile isWhiteSpace s)))"

text \<open>\<^verbatim>\<open>s.split(sep)\<close> for a separator of one code unit. The result is never empty:
  \<^verbatim>\<open>"".split(";")\<close> is \<^verbatim>\<open>[""]\<close>. A code unit that is not the separator goes in front of
  the first segment of the rest; the rest always has one (\<open>split_not_Nil\<close>), so the first
  branch of the \<open>case\<close> is never taken.\<close>

fun split :: "char \<Rightarrow> string \<Rightarrow> string list" where
  "split sep [] = [[]]"
| "split sep (x # xs) =
     (if x = sep then [] # split sep xs
      else (case split sep xs of
              [] \<Rightarrow> [[x]]
            | y # ys \<Rightarrow> (x # y) # ys))"

text \<open>\<^verbatim>\<open>s.indexOf(c)\<close> for one code unit; \<open>None\<close> stands for the result \<open>-1\<close>.\<close>

fun indexOf :: "string \<Rightarrow> char \<Rightarrow> nat option" where
  "indexOf [] c = None"
| "indexOf (x # xs) c =
     (if x = c then Some 0 else map_option Suc (indexOf xs c))"

text \<open>\<^verbatim>\<open>s.slice(0, n)\<close> is \<^term>\<open>take n s\<close> and \<^verbatim>\<open>s.slice(n)\<close> is \<^term>\<open>drop n s\<close>
  for \<open>0 \<le> n\<close>.\<close>

text \<open>\<^verbatim>\<open>String.prototype.toUpperCase\<close> on the ASCII letters. Code units from 128 to 255 are
  left as they are; JavaScript maps none of them to an ASCII letter other than through
  \<^verbatim>\<open>"SS"\<close>, so a comparison of the result with a literal that has no \<^verbatim>\<open>"SS"\<close> in it comes
  out the same.\<close>

definition upperChar :: "char \<Rightarrow> char" where
  "upperChar c =
     (case map_of (zip ''abcdefghijklmnopqrstuvwxyz'' ''ABCDEFGHIJKLMNOPQRSTUVWXYZ'') c of
        Some u \<Rightarrow> u
      | None \<Rightarrow> c)"

definition toUpperCase :: "string \<Rightarrow> string" where
  "toUpperCase s = map upperChar s"

text \<open>Two names are equal up to case when their upper-case forms are equal.\<close>

definition equalsIgnoreCase :: "string \<Rightarrow> string \<Rightarrow> bool" where
  "equalsIgnoreCase a b \<longleftrightarrow> toUpperCase a = toUpperCase b"

text \<open>The decimal rendering of a non-negative integer in a template literal, as in
  \<^verbatim>\<open>`${res.status}`\<close> and \<^verbatim>\<open>`${cookies.length}`\<close>.\<close>

definition digit :: "nat \<Rightarrow> char" where
  "digit d = ''0123456789'' ! (d mod 10)"

fun showNat :: "nat \<Rightarrow> string" where
  "showNat n = (if n < 10 then [digit n] else showNat (n div 10) @ [digit n])"

declare showNat.simps [simp del]

text \<open>\<^verbatim>\<open>a.includes(b)\<close>: \<open>b\<close> occurs in \<open>a\<close> as a contiguous run of code units.\<close>

definition includes' :: "string \<Rightarrow> string \<Rightarrow> bool" where
  "includes' a b \<longleftrightarrow>
     list_ex (\<lambda>i. take (length b) (drop i a) = b) [0 ..< Suc (length a)]"

text \<open>\<^verbatim>\<open>a.startsWith(b)\<close>.\<close>

definition startsWith :: "string \<Rightarrow> string \<Rightarrow> bool" where
  "startsWith a b \<longleftrightarrow> take (length b) a = b"

section \<open>Cookie entries (\<^verbatim>\<open>utils/types.ts\<close>)\<close>

record CookieEntry =
  name :: string
  value' :: string
  domain :: string
  path :: string

section \<open>The anti-forgery token (\<^verbatim>\<open>WebClient.getXsrfToken\<close>)\<close>

text \<open>The predicate handed to \<^verbatim>\<open>Array.prototype.find\<close>.\<close>

definition isXsrfCookie :: "CookieEntry \<Rightarrow> bool" where
  "isXsrfCookie c \<longleftrightarrow>
     toUpperCase (name c) = ''XSRF-TOKEN'' \<or> toUpperCase (name c) = ''X-XSRF-TOKEN''"

text \<open>\<^verbatim>\<open>xsrf?.value\<close>: \<open>None\<close> stands for \<^verbatim>\<open>undefined\<close>.\<close>

definition getXsrfToken :: "CookieEntry list \<Rightarrow> string option" where
  "getXsrfToken cookies = map_option value' (find isXsrfCookie cookies)"

section \<open>Exceptions\<close>

text \<open>
  A thrown value is an \<^verbatim>\<open>Error\<close> with its message. A computation that may throw returns
  \<open>Inl\<close> of the exception or \<open>Inr\<close> of its result; \<^verbatim>\<open>try { b } catch (e) { h }\<close> is
  \<open>tryCatch b h\<close>.
\<close>

datatype exn = Error (message: string)

definition tryCatch :: "exn + 'a \<Rightarrow> (exn \<Rightarrow> exn + 'a) \<Rightarrow> exn + 'a" where
  "tryCatch body handler = (case body of Inl e \<Rightarrow> handler e | Inr v \<Rightarrow> Inr v)"

definition bind :: "exn + 'a \<Rightarrow> ('a \<Rightarrow> exn + 'b) \<Rightarrow> exn + 'b" where
  "bind m f = (case m of Inl e \<Rightarrow> Inl e | Inr v \<Rightarrow> f v)"

section \<open>The file system (\<^verbatim>\<open>node:fs\<close>, \<^verbatim>\<open>node:path\<close>)\<close>

text \<open>
  A path is its list of components below the root, and the file system maps a path to a
  file with its contents or to a directory. The four calls the web client makes are
  modelled with the failures the directory structure causes: reading what is not a file,
  writing where the parent is not a directory or the target is one, creating a directory
  below a file.
\<close>

type_synonym path = "string list"

datatype node = File string | Dir

type_synonym fs = "path \<Rightarrow> node option"

definition dirname :: "path \<Rightarrow> path" where
  "dirname p = butlast p"

definition existsSync :: "fs \<Rightarrow> path \<Rightarrow> bool" where
  "existsSync files p \<longleftrightarrow> files p \<noteq> None"

definition readFileSync :: "fs \<Rightarrow> path \<Rightarrow> exn + string" where
  "readFileSync files p =
     (case files p of
        None \<Rightarrow> Inl (Error ''ENOENT: no such file or directory'')
      | Some Dir \<Rightarrow> Inl (Error ''EISDIR: illegal operation on a directory'')
      | Some (File d) \<Rightarrow> Inr d)"

definition writeFileSync :: "fs \<Rightarrow> path \<Rightarrow> string \<Rightarrow> exn + fs" where
  "writeFileSync files p d =
     (if files p = Some Dir then Inl (Error ''EISDIR: illegal operation on a directory'')
      else if files (dirname p) \<noteq> Some Dir then Inl (Error ''ENOENT: no such file or directory'')
      else Inr (files(p \<mapsto> File d)))"

text \<open>The path itself and every path above it, the root first.\<close>

definition ancestors :: "path \<Rightarrow> path list" where
  "ancestors p = map (\<lambda>n. take n p) [0 ..< Suc (length p)]"

definition isFile :: "fs \<Rightarrow> path \<Rightarrow> bool" where
  "isFile files p \<longleftrightarrow> (case files p of Some (File d) \<Rightarrow> True | _ \<Rightarrow> False)"

text \<open>\<^verbatim>\<open>mkdirSync(dir, { recursive: true })\<close>.\<close>

definition mkdirSync :: "fs \<Rightarrow> path \<Rightarrow> exn + fs" where
  "mkdirSync files p =
     (if list_ex (isFile files) (ancestors p) then Inl (Error ''ENOTDIR: not a directory'')
      else Inr (\<lambda>q. if q \<in> set (ancestors p) then Some Dir else files q))"

section \<open>Configuration (\<^verbatim>\<open>config.ts\<close>)\<close>

record Config =
  curseforgeApiKey :: string
  curseforgeAuthorToken :: string
  curseforgeGameSlug :: string
  authDir :: path
  cookiesPath :: path

text \<open>\<^verbatim>\<open>process.env.X || ""\<close>: an unset variable and an empty one both give the empty string.\<close>

definition envOr :: "(string \<Rightarrow> string option) \<Rightarrow> string \<Rightarrow> string" where
  "envOr env k = (case env k of None \<Rightarrow> [] | Some v \<Rightarrow> v)"

text \<open>\<open>root\<close> is \<^verbatim>\<open>path.resolve(__dirname, "..")\<close>.\<close>

definition loadConfig :: "(string \<Rightarrow> string option) \<Rightarrow> path \<Rightarrow> Config" where
  "loadConfig env root =
     \<lparr>curseforgeApiKey = envOr env ''CURSEFORGE_API_KEY'',
      curseforgeAuthorToken = envOr env ''CURSEFORGE_AUTHOR_TOKEN'',
      curseforgeGameSlug = envOr env ''CURSEFORGE_GAME_SLUG'',
      authDir = root @ [''.auth''],
      cookiesPath = (root @ [''.auth'']) @ [''cookies.json'']\<rparr>"

section \<open>The JSON built-ins on the session file\<close>

text \<open>
  The field \<^verbatim>\<open>this.cookies\<close> is declared a \<^verbatim>\<open>CookieEntry[]\<close>, and every assignment of the
  program's own stores one. \<^verbatim>\<open>loadCookies\<close> however stores whatever \<^verbatim>\<open>JSON.parse\<close> returns
  from the session file, without a check of its shape. So the field holds a list of cookie
  entries, or \<^verbatim>\<open>null\<close>, or some other JSON value. The program reads the field in three
  ways only, and a value of the last kind is given by what the three yield on it:
  \<^verbatim>\<open>v.length > 0\<close>, which throws on no JSON value but \<^verbatim>\<open>null\<close>; the cookie header
  \<^verbatim>\<open>v.map((c) => `${c.name}=${c.value}`).join("; ")\<close>; and the token
  \<^verbatim>\<open>v.find(...)?.value\<close>. The last two throw on a value without \<^verbatim>\<open>map\<close> or \<^verbatim>\<open>find\<close>.
\<close>

record foreign =
  lengthPositive :: bool
  cookieHeader :: "exn + string"
  xsrfToken :: "exn + string option"

datatype stored = Entries "CookieEntry list" | Null | Foreign foreign

text \<open>
  \<^verbatim>\<open>JSON.stringify(this.cookies, null, 2)\<close> and \<^verbatim>\<open>JSON.parse(data)\<close> belong to the runtime
  and are parameters of the model. \<open>JSON_parse\<close> throws on a text that is not JSON and
  returns the value of a text that is.
\<close>

record json =
  JSON_stringify :: "stored \<Rightarrow> string"
  JSON_parse :: "string \<Rightarrow> exn + stored"

section \<open>The cookie extractor (\<^verbatim>\<open>clients/cookie-extractor.ts\<close>)\<close>

text \<open>
  A cookie object of \<^verbatim>\<open>@rookie-rs/api\<close> has the four fields of a cookie entry and more, so
  it is any record extending \<^typ>\<open>CookieEntry\<close>. A browser function takes the domains and
  returns the cookies or throws.
\<close>

type_synonym 'x BrowserFn = "string list \<Rightarrow> exn + 'x CookieEntry_scheme list"

record 'x rookieApi =
  chrome :: "'x BrowserFn"
  firefox :: "'x BrowserFn"
  edge :: "'x BrowserFn"
  brave :: "'x BrowserFn"
  chromium :: "'x BrowserFn"
  opera :: "'x BrowserFn"
  operaGx :: "'x BrowserFn"
  vivaldi :: "'x BrowserFn"
  arc :: "'x BrowserFn"
  librewolf :: "'x BrowserFn"
  octoBrowser :: "'x BrowserFn"
  internetExplorer :: "'x BrowserFn"

record ExtractionResult =
  browser :: string
  cookies' :: "CookieEntry list"
  error' :: "string option"

definition CF_DOMAINS :: "string list" where
  "CF_DOMAINS = [''.curseforge.com'']"

definition toCookieEntries :: "'x CookieEntry_scheme list \<Rightarrow> CookieEntry list" where
  "toCookieEntries raw =
     map (\<lambda>c. \<lparr>name = name c, value' = value' c, domain = domain c, path = path c\<rparr>) raw"

text \<open>The \<^verbatim>\<open>for\<close> loop over the browsers: a browser that throws or has no cookie is
  skipped, the first one with cookies ends the loop.\<close>

fun extractLoop :: "(string \<times> 'x BrowserFn) list \<Rightarrow> ExtractionResult" where
  "extractLoop [] =
     \<lparr>browser = ''none'', cookies' = [],
      error' = Some ''No browser had curseforge.com cookies''\<rparr>"
| "extractLoop ((nm, fn) # rest) =
     (case fn CF_DOMAINS of
        Inl e \<Rightarrow> extractLoop rest
      | Inr raw \<Rightarrow>
          if length raw > 0
          then \<lparr>browser = nm, cookies' = toCookieEntries raw, error' = None\<rparr>
          else extractLoop rest)"

definition browsers :: "'x rookieApi \<Rightarrow> (string \<times> 'x BrowserFn) list" where
  "browsers api =
     [(''Chrome'', chrome api), (''Firefox'', firefox api), (''Edge'', edge api),
      (''Brave'', brave api), (''Chromium'', chromium api), (''Opera'', opera api),
      (''Opera GX'', operaGx api), (''Vivaldi'', vivaldi api), (''Arc'', arc api),
      (''LibreWolf'', librewolf api), (''OctoBrowser'', octoBrowser api),
      (''Internet Explorer'', internetExplorer api)]"

text \<open>\<open>None\<close> for the module when \<^verbatim>\<open>await import("@rookie-rs/api")\<close> throws.\<close>

definition extractCookies :: "'x rookieApi option \<Rightarrow> exn + ExtractionResult" where
  "extractCookies rookie =
     (case rookie of
        None \<Rightarrow>
          Inr \<lparr>browser = ''none'', cookies' = [],
               error' = Some ''@rookie-rs/api not available on this platform. Use cf_set_cookies to set cookies manually.''\<rparr>
      | Some api \<Rightarrow> Inr (extractLoop (browsers api)))"

section \<open>The web client's cookie store (\<^verbatim>\<open>clients/web-client.ts\<close>)\<close>

record WebClient =
  cookies :: stored
  config :: Config

text \<open>A method that may throw after it has changed the client or the files returns its
  outcome together with both, as they are when it returns or throws.\<close>

definition loadCookies :: "json \<Rightarrow> fs \<Rightarrow> WebClient \<Rightarrow> exn + WebClient" where
  "loadCookies js files this =
     (if existsSync files (cookiesPath (config this))
      then tryCatch
             (bind (readFileSync files (cookiesPath (config this))) (\<lambda>d.
              bind (JSON_parse js d) (\<lambda>parsed.
              Inr (this\<lparr>cookies := parsed\<rparr>))))
             (\<lambda>e. Inr (this\<lparr>cookies := Entries []\<rparr>))
      else Inr this)"

text \<open>The constructor: the field initialiser \<^verbatim>\<open>cookies = []\<close>, then \<^verbatim>\<open>loadCookies()\<close>.\<close>

definition newWebClient :: "json \<Rightarrow> fs \<Rightarrow> Config \<Rightarrow> exn + WebClient" where
  "newWebClient js files cfg = loadCookies js files \<lparr>cookies = Entries [], config = cfg\<rparr>"

definition saveCookies :: "json \<Rightarrow> WebClient \<Rightarrow> fs \<Rightarrow> (exn + unit) \<times> fs" where
  "saveCookies js this files =
     (let dir = dirname (cookiesPath (config this));
          made = (if \<not> existsSync files dir then mkdirSync files dir else Inr files)
      in case made of
           Inl e \<Rightarrow> (Inl e, files)
         | Inr files1 \<Rightarrow>
             (case writeFileSync files1 (cookiesPath (config this)) (JSON_stringify js (cookies this)) of
                Inl e \<Rightarrow> (Inl e, files1)
              | Inr files2 \<Rightarrow> (Inr (), files2)))"

definition setCookies ::
  "json \<Rightarrow> CookieEntry list \<Rightarrow> WebClient \<Rightarrow> fs \<Rightarrow> (exn + unit) \<times> WebClient \<times> fs" where
  "setCookies js cs this files =
     (let this1 = this\<lparr>cookies := Entries cs\<rparr>;
          (r, files1) = saveCookies js this1 files
      in (r, this1, files1))"

text \<open>One trimmed, non-empty segment: \<open>None\<close> is the \<^verbatim>\<open>null\<close> of a segment without \<^verbatim>\<open>=\<close>.\<close>

definition parseSegment :: "string \<Rightarrow> CookieEntry option" where
  "parseSegment c =
     (case indexOf c (CHR ''='') of
        None \<Rightarrow> None
      | Some eqIdx \<Rightarrow>
          Some \<lparr>name = trim (take eqIdx c), value' = trim (drop (eqIdx + 1) c),
                domain = ''.curseforge.com'', path = ''/''\<rparr>)"

definition parseCookieString :: "string \<Rightarrow> CookieEntry list" where
  "parseCookieString cookieString =
     map the
       (filter (\<lambda>c. c \<noteq> None)
         (map parseSegment
           (filter (\<lambda>c. c \<noteq> [])
             (map trim (split (CHR '';'') cookieString)))))"

definition setCookiesFromString ::
  "json \<Rightarrow> string \<Rightarrow> WebClient \<Rightarrow> fs \<Rightarrow> (exn + unit) \<times> WebClient \<times> fs" where
  "setCookiesFromString js cookieString this files =
     (let this1 = this\<lparr>cookies := Entries (parseCookieString cookieString)\<rparr>;
          (r, files1) = saveCookies js this1 files
      in (r, this1, files1))"

text \<open>\<^verbatim>\<open>this.cookies.length > 0\<close>: reading a property of \<^verbatim>\<open>null\<close> throws a
  \<^verbatim>\<open>TypeError\<close>.\<close>

definition hasCookies :: "WebClient \<Rightarrow> exn + bool" where
  "hasCookies this =
     (case cookies this of
        Entries cs \<Rightarrow> Inr (length cs > 0)
      | Null \<Rightarrow> Inl (Error ''Cannot read properties of null (reading 'length')'')
      | Foreign v \<Rightarrow> Inr (lengthPositive v))"

text \<open>The body of the \<^verbatim>\<open>try\<close> block of \<^verbatim>\<open>autoExtractCookies\<close>.\<close>

definition autoExtractBody ::
  "json \<Rightarrow> 'x rookieApi option \<Rightarrow> WebClient \<Rightarrow> fs \<Rightarrow> (exn + string) \<times> WebClient \<times> fs" where
  "autoExtractBody js rookie this files =
     (case extractCookies rookie of
        Inl e \<Rightarrow> (Inl e, this, files)
      | Inr result \<Rightarrow>
          if length (cookies' result) > 0
          then (let this1 = this\<lparr>cookies := Entries (cookies' result)\<rparr>
                in case saveCookies js this1 files of
                     (Inl e, files1) \<Rightarrow> (Inl e, this1, files1)
                   | (Inr u, files1) \<Rightarrow>
                       (Inr (''Extracted '' @ showNat (length (cookies' result))
                               @ '' cookies from '' @ browser result),
                        this1, files1))
          else (Inr (case error' result of
                       None \<Rightarrow> ''No cookies found''
                     | Some msg \<Rightarrow> if msg = [] then ''No cookies found'' else msg),
                this, files))"

definition autoExtractCookies ::
  "json \<Rightarrow> 'x rookieApi option \<Rightarrow> WebClient \<Rightarrow> fs \<Rightarrow> (exn + string) \<times> WebClient \<times> fs" where
  "autoExtractCookies js rookie this files =
     (case autoExtractBody js rookie this files of
        (Inl err, this1, files1) \<Rightarrow>
          (Inr (''Auto-extraction failed: '' @ message err), this1, files1)
      | (Inr s, this1, files1) \<Rightarrow> (Inr s, this1, files1))"

definition init ::
  "json \<Rightarrow> 'x rookieApi option \<Rightarrow> WebClient \<Rightarrow> fs \<Rightarrow> (exn + unit) \<times> WebClient \<times> fs" where
  "init js rookie this files =
     (case hasCookies this of
        Inl e \<Rightarrow> (Inl e, this, files)
      | Inr has \<Rightarrow>
          if \<not> has
          then (case autoExtractCookies js rookie this files of
                  (Inl e, this1, files1) \<Rightarrow> (Inl e, this1, files1)
                | (Inr s, this1, files1) \<Rightarrow> (Inr (), this1, files1))
          else (Inr (), this, files))"

section \<open>Tool results (\<^verbatim>\<open>utils/types.ts\<close>)\<close>

text \<open>\<open>content\<close> holds the texts of the items, all of type \<^verbatim>\<open>"text"\<close>; \<open>isError\<close> is
  \<open>None\<close> when the property is not set.\<close>

record ToolResult =
  content :: "string list"
  isError :: "bool option"

definition success :: "string \<Rightarrow> ToolResult" where
  "success t = \<lparr>content = [t], isError = None\<rparr>"

definition error :: "string \<Rightarrow> ToolResult" where
  "error t = \<lparr>content = [''Error: '' @ t], isError = Some True\<rparr>"

section \<open>JSON values and HTTP (\<^verbatim>\<open>fetch\<close>)\<close>

text \<open>The values that travel in request and response bodies. Numbers are the integers:
  the tools build their bodies and addresses from identifiers and page numbers.\<close>

datatype jsval =
    JNull
  | JBool bool
  | JNum int
  | JStr string
  | JArr "jsval list"
  | JObj "(string \<times> jsval) list"

definition showInt :: "int \<Rightarrow> string" where
  "showInt i = (if i < 0 then ''-'' @ showNat (nat (- i)) else showNat (nat i))"

datatype formPart = Field string | Blob string string

datatype reqBody = NoBody | TextBody string | FormData "(string \<times> formPart) list"

record Request =
  url :: string
  method' :: string
  headers :: "(string \<times> string) list"
  body :: reqBody

text \<open>A response: \<open>text'\<close> is the outcome of \<^verbatim>\<open>res.text()\<close>, \<open>contentType\<close> that of
  \<^verbatim>\<open>res.headers.get("content-type")\<close>, \<open>resUrl\<close> is \<^verbatim>\<open>res.url\<close>.\<close>

record Response =
  status :: nat
  text' :: "exn + string"
  contentType :: "string option"
  resUrl :: string

definition ok :: "Response \<Rightarrow> bool" where
  "ok res \<longleftrightarrow> 200 \<le> status res \<and> status res \<le> 299"

text \<open>
  What the clients take from the runtime and the network: \<open>fetch\<close> answers a request or
  rejects, \<open>stringify\<close> is \<^verbatim>\<open>JSON.stringify\<close> and \<open>parseJson\<close> is \<^verbatim>\<open>JSON.parse\<close> on values,
  \<open>urlOrigin\<close> is \<^verbatim>\<open>new URL(u).origin\<close>, \<open>USER_AGENT\<close> the constant of \<^verbatim>\<open>utils/helpers.ts\<close>.
\<close>

record http =
  fetch :: "Request \<Rightarrow> exn + Response"
  stringify :: "jsval \<Rightarrow> string"
  parseJson :: "string \<Rightarrow> exn + jsval"
  urlOrigin :: "string \<Rightarrow> exn + string"
  USER_AGENT :: string

text \<open>\<^verbatim>\<open>res.json()\<close> reads the body and parses it.\<close>

definition resJson :: "http \<Rightarrow> Response \<Rightarrow> exn + jsval" where
  "resJson h res = bind (text' res) (parseJson h)"

text \<open>Setting a property of a header object: an existing key keeps its place.\<close>

fun setHeader :: "string \<Rightarrow> string \<Rightarrow> (string \<times> string) list \<Rightarrow> (string \<times> string) list" where
  "setHeader k v [] = [(k, v)]"
| "setHeader k v (p # ps) = (if fst p = k then (k, v) # ps else p # setHeader k v ps)"

text \<open>The spread \<^verbatim>\<open>{ ...a, ...b }\<close>.\<close>

definition spread :: "(string \<times> string) list \<Rightarrow> (string \<times> string) list \<Rightarrow> (string \<times> string) list" where
  "spread a b = foldl (\<lambda>acc p. setHeader (fst p) (snd p) acc) a b"

text \<open>\<^verbatim>\<open>xs.join(sep)\<close>.\<close>

fun join :: "string \<Rightarrow> string list \<Rightarrow> string" where
  "join sep [] = []"
| "join sep [x] = x"
| "join sep (x # y # ys) = x @ sep @ join sep (y # ys)"

section \<open>The web client's requests (\<^verbatim>\<open>clients/web-client.ts\<close>)\<close>

text \<open>\<^verbatim>\<open>getCookieHeader()\<close> and \<^verbatim>\<open>getXsrfToken()\<close> on the field as it is stored; on a list
  of entries the token is \<^term>\<open>getXsrfToken\<close> of the list.\<close>

definition getCookieHeader :: "WebClient \<Rightarrow> exn + string" where
  "getCookieHeader this =
     (case cookies this of
        Entries cs \<Rightarrow> Inr (join ''; '' (map (\<lambda>c. name c @ ''='' @ value' c) cs))
      | Null \<Rightarrow> Inl (Error ''Cannot read properties of null (reading 'map')'')
      | Foreign v \<Rightarrow> cookieHeader v)"

definition storedXsrfToken :: "WebClient \<Rightarrow> exn + string option" where
  "storedXsrfToken this =
     (case cookies this of
        Entries cs \<Rightarrow> Inr (getXsrfToken cs)
      | Null \<Rightarrow> Inl (Error ''Cannot read properties of null (reading 'find')'')
      | Foreign v \<Rightarrow> xsrfToken v)"

text \<open>The header object of \<^verbatim>\<open>browserHeaders\<close>, given the cookie header and the token.\<close>

definition headersWith ::
  "http \<Rightarrow> string \<Rightarrow> string option \<Rightarrow> string \<Rightarrow> (string \<times> string) list
     \<Rightarrow> (string \<times> string) list" where
  "headersWith h cookie xsrf targetUrl extra =
     (let origin = (case urlOrigin h targetUrl of
                      Inl e \<Rightarrow> ''https://www.curseforge.com''
                    | Inr u \<Rightarrow> u);
          hs = spread [(''User-Agent'', USER_AGENT h),
                       (''Cookie'', cookie),
                       (''Accept'', ''application/json''),
                       (''Origin'', origin),
                       (''Referer'', origin @ ''/'')] extra
      in case xsrf of
           None \<Rightarrow> hs
         | Some x \<Rightarrow> if x \<noteq> [] then setHeader ''X-XSRF-TOKEN'' x hs else hs)"

definition browserHeaders ::
  "http \<Rightarrow> WebClient \<Rightarrow> string \<Rightarrow> (string \<times> string) list
     \<Rightarrow> exn + (string \<times> string) list" where
  "browserHeaders h this targetUrl extra =
     bind (getCookieHeader this) (\<lambda>cookie.
     bind (storedXsrfToken this) (\<lambda>xsrf.
     Inr (headersWith h cookie xsrf targetUrl extra)))"

text \<open>The message of the error thrown on a response that is not \<^verbatim>\<open>ok\<close>.\<close>

definition httpErrorMessage :: "nat \<Rightarrow> string \<Rightarrow> string \<Rightarrow> string" where
  "httpErrorMessage st u errorBody =
     ''HTTP '' @ showNat st @ '': '' @ u
       @ (if errorBody \<noteq> [] then [CHR 0x0A] @ take 500 errorBody else [])"

text \<open>The argument of \<^verbatim>\<open>fetch\<close>: the address, the method, the headers and the body,
  \<^verbatim>\<open>JSON.stringify(body)\<close> when there is one. Building the headers may throw.\<close>

definition extraFor :: "jsval option \<Rightarrow> (string \<times> string) list \<Rightarrow> (string \<times> string) list" where
  "extraFor b extraHeaders =
     spread (if b \<noteq> None then [(''Content-Type'', ''application/json'')] else []) extraHeaders"

definition bodyFor :: "http \<Rightarrow> jsval option \<Rightarrow> reqBody" where
  "bodyFor h b = (case b of None \<Rightarrow> NoBody | Some v \<Rightarrow> TextBody (stringify h v))"

definition fetchArgs ::
  "http \<Rightarrow> WebClient \<Rightarrow> string \<Rightarrow> string \<Rightarrow> jsval option \<Rightarrow> (string \<times> string) list
     \<Rightarrow> exn + Request" where
  "fetchArgs h this u m b extraHeaders =
     bind (browserHeaders h this u (extraFor b extraHeaders)) (\<lambda>hs.
     Inr \<lparr>url = u, method' = m, headers = hs, body = bodyFor h b\<rparr>)"

text \<open>\<^verbatim>\<open>await res.text().catch(() => "")\<close>.\<close>

definition errorBody :: "Response \<Rightarrow> string" where
  "errorBody res = (case text' res of Inl e \<Rightarrow> [] | Inr t \<Rightarrow> t)"

text \<open>\<open>sent\<close> is the list of the requests handed to \<^verbatim>\<open>fetch\<close> so far; the method returns
  it extended by its own call, when it comes to call \<^verbatim>\<open>fetch\<close>.\<close>

definition request ::
  "http \<Rightarrow> WebClient \<Rightarrow> string \<Rightarrow> string \<Rightarrow> jsval option \<Rightarrow> (string \<times> string) list
     \<Rightarrow> Request list \<Rightarrow> (exn + jsval) \<times> Request list" where
  "request h this u m b extraHeaders sent =
     (case fetchArgs h this u m b extraHeaders of
        Inl e \<Rightarrow> (Inl e, sent)
      | Inr req \<Rightarrow>
          (case fetch h req of
             Inl e \<Rightarrow> Inl e
           | Inr res \<Rightarrow>
               if \<not> ok res
               then Inl (Error (httpErrorMessage (status res) u (errorBody res)))
               else (let ct = (case contentType res of None \<Rightarrow> [] | Some c \<Rightarrow> c)
                     in if includes' ct ''application/json''
                        then resJson h res
                        else map_sum id JStr (text' res)),
           sent @ [req]))"

definition get ::
  "http \<Rightarrow> WebClient \<Rightarrow> string \<Rightarrow> Request list \<Rightarrow> (exn + jsval) \<times> Request list" where
  "get h this u sent = request h this u ''GET'' None [] sent"

definition post ::
  "http \<Rightarrow> WebClient \<Rightarrow> string \<Rightarrow> jsval option \<Rightarrow> Request list
     \<Rightarrow> (exn + jsval) \<times> Request list" where
  "post h this u b sent = request h this u ''POST'' b [] sent"

definition put ::
  "http \<Rightarrow> WebClient \<Rightarrow> string \<Rightarrow> jsval option \<Rightarrow> Request list
     \<Rightarrow> (exn + jsval) \<times> Request list" where
  "put h this u b sent = request h this u ''PUT'' b [] sent"

definition delete ::
  "http \<Rightarrow> WebClient \<Rightarrow> string \<Rightarrow> Request list \<Rightarrow> (exn + jsval) \<times> Request list" where
  "delete h this u sent = request h this u ''DELETE'' None [] sent"

section \<open>The web tools (\<^verbatim>\<open>tools/web-api.ts\<close>)\<close>

definition CF_BASE :: string where
  "CF_BASE = ''https://www.curseforge.com''"

definition AUTHORS_API :: string where
  "AUTHORS_API = ''https://authors.curseforge.com/_api''"

definition showBool :: "bool \<Rightarrow> string" where
  "showBool b = (if b then ''true'' else ''false'')"

text \<open>\<^verbatim>\<open>truncate(text)\<close> of \<^verbatim>\<open>utils/helpers.ts\<close> with its default length, and \<^verbatim>\<open>compact\<close>.\<close>

definition truncate :: "string \<Rightarrow> string" where
  "truncate t =
     (if length t \<le> 20000 then t else take 20000 t @ [CHR 0x0A] @ ''... [truncated]'')"

definition compact :: "http \<Rightarrow> jsval \<Rightarrow> string" where
  "compact h data = stringify h data"

text \<open>The \<^verbatim>\<open>catch (e)\<close> of a handler: \<^verbatim>\<open>error(`tool: ${e.message}`)\<close>.\<close>

definition caught :: "string \<Rightarrow> exn \<Rightarrow> ToolResult" where
  "caught tool e = error (tool @ '': '' @ message e)"

definition noSession :: ToolResult where
  "noSession = error ''No session cookies. Use cf_auto_extract_cookies first.''"

definition cf_set_cookies ::
  "json \<Rightarrow> string \<Rightarrow> WebClient \<Rightarrow> fs \<Rightarrow> ToolResult \<times> WebClient \<times> fs" where
  "cf_set_cookies js cookieString client files =
     (case setCookiesFromString js cookieString client files of
        (Inl e, client1, files1) \<Rightarrow> (caught ''set_cookies'' e, client1, files1)
      | (Inr u, client1, files1) \<Rightarrow>
          (case hasCookies client1 of
             Inl e \<Rightarrow> (caught ''set_cookies'' e, client1, files1)
           | Inr has \<Rightarrow>
               (success (''Cookies saved. Session active: '' @ showBool has), client1, files1)))"

definition cf_auto_extract_cookies ::
  "json \<Rightarrow> 'x rookieApi option \<Rightarrow> WebClient \<Rightarrow> fs \<Rightarrow> ToolResult \<times> WebClient \<times> fs" where
  "cf_auto_extract_cookies js rookie client files =
     (case autoExtractCookies js rookie client files of
        (Inl e, client1, files1) \<Rightarrow> (caught ''auto_extract'' e, client1, files1)
      | (Inr result, client1, files1) \<Rightarrow>
          (case hasCookies client1 of
             Inl e \<Rightarrow> (caught ''auto_extract'' e, client1, files1)
           | Inr has \<Rightarrow>
               (success (result @ [CHR 0x0A] @ ''Session active: '' @ showBool has),
                client1, files1)))"

text \<open>
  The five handlers that need a session test \<^verbatim>\<open>client.hasCookies()\<close> before their
  \<^verbatim>\<open>try\<close>: what that call throws leaves the handler, what the \<^verbatim>\<open>try\<close> block throws is
  caught. \<open>render\<close> stands for the lines that turn the reply into the text of the result
  (\<^verbatim>\<open>formatCommentThread\<close> and the counts); it may throw, inside the \<^verbatim>\<open>try\<close>.
\<close>

definition get_comments ::
  "http \<Rightarrow> (int \<Rightarrow> jsval \<Rightarrow> exn + string) \<Rightarrow> WebClient \<Rightarrow> int \<Rightarrow> int \<Rightarrow> int
     \<Rightarrow> Request list \<Rightarrow> (exn + ToolResult) \<times> Request list" where
  "get_comments h render client mod_id page page_size sent =
     (case hasCookies client of
        Inl e \<Rightarrow> (Inl e, sent)
      | Inr has \<Rightarrow>
          if \<not> has then (Inr noSession, sent)
          else (let index = (page - 1) * page_size
                in case get h client
                          (CF_BASE @ ''/api/v1/mods/'' @ showInt mod_id @ ''/comments?index=''
                             @ showInt index @ ''&pageSize='' @ showInt page_size) sent of
                     (Inl e, sent1) \<Rightarrow> (Inr (caught ''get_comments'' e), sent1)
                   | (Inr data, sent1) \<Rightarrow>
                       (case render page data of
                          Inl e \<Rightarrow> (Inr (caught ''get_comments'' e), sent1)
                        | Inr t \<Rightarrow> (Inr (success t), sent1))))"

definition post_comment ::
  "http \<Rightarrow> WebClient \<Rightarrow> int \<Rightarrow> string \<Rightarrow> int option
     \<Rightarrow> Request list \<Rightarrow> (exn + ToolResult) \<times> Request list" where
  "post_comment h client mod_id comment_text reply_to_id sent =
     (case hasCookies client of
        Inl e \<Rightarrow> (Inl e, sent)
      | Inr has \<Rightarrow>
          if \<not> has then (Inr noSession, sent)
          else (let b = [(''entityId'', JNum mod_id), (''body'', JStr comment_text),
                         (''bodyType'', JStr ''RawHtml'')]
                        @ (case reply_to_id of
                             None \<Rightarrow> []
                           | Some r \<Rightarrow> [(''parentCommentId'', JNum r)])
                in case post h client (CF_BASE @ ''/api/v1/comments'') (Some (JObj b)) sent of
                     (Inl e, sent1) \<Rightarrow> (Inr (caught ''post_comment'' e), sent1)
                   | (Inr data, sent1) \<Rightarrow> (Inr (success ''Comment posted.''), sent1)))"

definition delete_comment ::
  "http \<Rightarrow> WebClient \<Rightarrow> int \<Rightarrow> int \<Rightarrow> Request list
     \<Rightarrow> (exn + ToolResult) \<times> Request list" where
  "delete_comment h client mod_id comment_id sent =
     (case hasCookies client of
        Inl e \<Rightarrow> (Inl e, sent)
      | Inr has \<Rightarrow>
          if \<not> has then (Inr noSession, sent)
          else (case delete h client
                       (CF_BASE @ ''/api/v1/comments/'' @ showInt comment_id) sent of
                  (Inl e, sent1) \<Rightarrow> (Inr (caught ''delete_comment'' e), sent1)
                | (Inr data, sent1) \<Rightarrow>
                    (Inr (success (''Comment '' @ showInt comment_id @ '' deleted.'')), sent1)))"

definition get_project_settings ::
  "http \<Rightarrow> WebClient \<Rightarrow> int \<Rightarrow> Request list \<Rightarrow> (exn + ToolResult) \<times> Request list" where
  "get_project_settings h client project_id sent =
     (case hasCookies client of
        Inl e \<Rightarrow> (Inl e, sent)
      | Inr has \<Rightarrow>
          if \<not> has then (Inr noSession, sent)
          else (case get h client (AUTHORS_API @ ''/projects/'' @ showInt project_id) sent of
                  (Inl e, sent1) \<Rightarrow> (Inr (caught ''get_project_settings'' e), sent1)
                | (Inr data, sent1) \<Rightarrow> (Inr (success (truncate (compact h data))), sent1)))"

definition update_project_description ::
  "http \<Rightarrow> WebClient \<Rightarrow> int \<Rightarrow> string \<Rightarrow> Request list
     \<Rightarrow> (exn + ToolResult) \<times> Request list" where
  "update_project_description h client project_id description sent =
     (case hasCookies client of
        Inl e \<Rightarrow> (Inl e, sent)
      | Inr has \<Rightarrow>
          if \<not> has then (Inr noSession, sent)
          else (case put h client
                       (AUTHORS_API @ ''/projects/description/'' @ showInt project_id)
                       (Some (JObj [(''description'', JStr description),
                                    (''descriptionType'', JNum 1),
                                    (''id'', JNum project_id)])) sent of
                  (Inl e, sent1) \<Rightarrow> (Inr (caught ''update_project_description'' e), sent1)
                | (Inr data, sent1) \<Rightarrow> (Inr (success ''Description updated.''), sent1)))"

datatype Method = GET | POST | PUT | DELETE

text \<open>\<^verbatim>\<open>body ? JSON.parse(body) : undefined\<close>. The whole of the handler of
  \<^verbatim>\<open>cf_fetch_page\<close> is inside its \<^verbatim>\<open>try\<close>, so it always returns a result.\<close>

definition parseBody :: "http \<Rightarrow> string option \<Rightarrow> exn + jsval option" where
  "parseBody h b =
     (case b of
        None \<Rightarrow> Inr None
      | Some t \<Rightarrow> if t = [] then Inr None else map_sum id Some (parseJson h t))"

definition cf_fetch_page ::
  "http \<Rightarrow> WebClient \<Rightarrow> string \<Rightarrow> Method \<Rightarrow> string option
     \<Rightarrow> Request list \<Rightarrow> ToolResult \<times> Request list" where
  "cf_fetch_page h client u m b sent =
     (let fullUrl = (if startsWith u ''http'' then u else CF_BASE @ u);
          (r, sent1) =
            (case m of
               POST \<Rightarrow> (case parseBody h b of
                           Inl e \<Rightarrow> (Inl e, sent)
                         | Inr v \<Rightarrow> post h client fullUrl v sent)
             | PUT \<Rightarrow> (case parseBody h b of
                          Inl e \<Rightarrow> (Inl e, sent)
                        | Inr v \<Rightarrow> put h client fullUrl v sent)
             | DELETE \<Rightarrow> delete h client fullUrl sent
             | GET \<Rightarrow> get h client fullUrl sent)
      in case r of
           Inl e \<Rightarrow> (caught ''cf_fetch_page'' e, sent1)
         | Inr data \<Rightarrow>
             (success (truncate (case data of JStr t \<Rightarrow> t | _ \<Rightarrow> compact h data)), sent1))"

section \<open>The upload client (\<^verbatim>\<open>clients/upload-client.ts\<close>)\<close>

definition BASE_URL :: string where
  "BASE_URL = ''https://www.curseforge.com''"

record UploadApiClient =
  token :: string

definition newUploadApiClient :: "Config \<Rightarrow> exn + UploadApiClient" where
  "newUploadApiClient cfg =
     (if curseforgeAuthorToken cfg = []
      then Inl (Error ''CURSEFORGE_AUTHOR_TOKEN is required for Upload API'')
      else Inr \<lparr>token = curseforgeAuthorToken cfg\<rparr>)"

definition uploadHeaders :: "http \<Rightarrow> UploadApiClient \<Rightarrow> (string \<times> string) list" where
  "uploadHeaders h this = [(''X-Api-Token'', token this), (''User-Agent'', USER_AGENT h)]"

text \<open>The two version queries share their body but for the address.\<close>

definition uploadGet ::
  "http \<Rightarrow> UploadApiClient \<Rightarrow> string \<Rightarrow> Request list \<Rightarrow> (exn + jsval) \<times> Request list" where
  "uploadGet h this u sent =
     (let req = \<lparr>url = u, method' = ''GET'', headers = uploadHeaders h this, body = NoBody\<rparr>
      in (case fetch h req of
            Inl e \<Rightarrow> Inl e
          | Inr res \<Rightarrow>
              if \<not> ok res
              then Inl (Error (''Upload API error '' @ showNat (status res) @ '' at '' @ resUrl res))
              else resJson h res,
          sent @ [req]))"

definition getGameVersions ::
  "http \<Rightarrow> UploadApiClient \<Rightarrow> Request list \<Rightarrow> (exn + jsval) \<times> Request list" where
  "getGameVersions h this sent = uploadGet h this (BASE_URL @ ''/api/game/versions'') sent"

definition getGameVersionTypes ::
  "http \<Rightarrow> UploadApiClient \<Rightarrow> Request list \<Rightarrow> (exn + jsval) \<times> Request list" where
  "getGameVersionTypes h this sent =
     uploadGet h this (BASE_URL @ ''/api/game/version-types'') sent"

text \<open>\<^verbatim>\<open>path.basename\<close>.\<close>

definition basename :: "path \<Rightarrow> string" where
  "basename p = (if p = [] then [] else last p)"

definition uploadFile ::
  "http \<Rightarrow> fs \<Rightarrow> UploadApiClient \<Rightarrow> int \<Rightarrow> path \<Rightarrow> jsval
     \<Rightarrow> Request list \<Rightarrow> (exn + jsval) \<times> Request list" where
  "uploadFile h files this projectId filePath metadata sent =
     (case readFileSync files filePath of
        Inl e \<Rightarrow> (Inl e, sent)
      | Inr fileBuffer \<Rightarrow>
          (let formData = [(''metadata'', Field (stringify h metadata)),
                           (''file'', Blob fileBuffer (basename filePath))];
               req = \<lparr>url = BASE_URL @ ''/api/projects/'' @ showInt projectId @ ''/upload-file'',
                      method' = ''POST'',
                      headers = [(''X-Api-Token'', token this), (''User-Agent'', USER_AGENT h)],
                      body = FormData formData\<rparr>
           in (case fetch h req of
                 Inl e \<Rightarrow> Inl e
               | Inr res \<Rightarrow>
                   if \<not> ok res
                   then (case text' res of
                           Inl e \<Rightarrow> Inl e
                         | Inr errorText \<Rightarrow>
                             Inl (Error (''Upload failed ('' @ showNat (status res) @ ''): ''
                                           @ errorText)))
                   else resJson h res,
               sent @ [req])))"

section \<open>The server (\<^verbatim>\<open>server.ts\<close>) and the registration of the tools\<close>

text \<open>The server is the list of the names of its registered tools, in the order of
  registration.\<close>

record McpServer =
  tools :: "string list"

definition registerTool :: "string \<Rightarrow> McpServer \<Rightarrow> McpServer" where
  "registerTool nm server = server\<lparr>tools := tools server @ [nm]\<rparr>"

definition registerAll :: "string list \<Rightarrow> McpServer \<Rightarrow> McpServer" where
  "registerAll nms server = foldl (\<lambda>s nm. registerTool nm s) server nms"

definition coreTools :: "string list" where
  "coreTools =
     [''search_mods'', ''get_mod'', ''get_mod_files'', ''get_mod_file'',
      ''get_mod_description'', ''get_mod_changelog'', ''get_download_url'', ''download_mod'',
      ''get_featured_mods'', ''get_mods_batch'', ''get_categories'', ''get_game_versions'']"

definition cfwidgetTools :: "string list" where
  "cfwidgetTools = [''get_project'', ''search_author'']"

definition uploadTools :: "string list" where
  "uploadTools =
     [''upload_file'', ''get_upload_game_versions'', ''get_upload_game_version_types'',
      ''get_upload_dependencies'']"

definition webTools :: "string list" where
  "webTools =
     [''cf_set_cookies'', ''cf_auto_extract_cookies'', ''get_comments'', ''post_comment'',
      ''delete_comment'', ''get_project_settings'', ''update_project_description'',
      ''cf_fetch_page'']"

text \<open>The core client (\<^verbatim>\<open>clients/curseforge-client.ts\<close>): \<open>newLib\<close> is the constructor of
  the library's client, which the model takes as a parameter.\<close>

record CoreApiClient =
  apiKey :: string

definition newCoreApiClient :: "(string \<Rightarrow> exn + unit) \<Rightarrow> Config \<Rightarrow> exn + CoreApiClient" where
  "newCoreApiClient newLib cfg =
     (if curseforgeApiKey cfg = []
      then Inl (Error ''CURSEFORGE_API_KEY is required for Core API access'')
      else bind (newLib (curseforgeApiKey cfg)) (\<lambda>lib. Inr \<lparr>apiKey = curseforgeApiKey cfg\<rparr>))"

definition registerCoreApiTools :: "CoreApiClient option \<Rightarrow> McpServer \<Rightarrow> McpServer" where
  "registerCoreApiTools client server =
     registerAll cfwidgetTools
       (if client \<noteq> None then registerAll coreTools server else server)"

definition registerUploadApiTools :: "UploadApiClient \<Rightarrow> McpServer \<Rightarrow> McpServer" where
  "registerUploadApiTools client server = registerAll uploadTools server"

definition registerWebApiTools :: "WebClient \<Rightarrow> McpServer \<Rightarrow> McpServer" where
  "registerWebApiTools client server = registerAll webTools server"

text \<open>\<^verbatim>\<open>createServer\<close>. \<open>env\<close> is \<^verbatim>\<open>process.env\<close> and \<open>root\<close> the directory above the
  module's. The diagnostics written with \<^verbatim>\<open>console.error\<close> are left out, but for the call
  of \<^verbatim>\<open>webClient.hasCookies()\<close> inside the last of them.\<close>

definition createServer ::
  "(string \<Rightarrow> string option) \<Rightarrow> path \<Rightarrow> (string \<Rightarrow> exn + unit) \<Rightarrow> json \<Rightarrow> 'x rookieApi option
     \<Rightarrow> fs \<Rightarrow> exn + (McpServer \<times> WebClient \<times> fs)" where
  "createServer env root newLib js rookie files =
     (let cfg = loadConfig env root;
          server = \<lparr>tools = []\<rparr>;
          coreClient =
            (if curseforgeApiKey cfg \<noteq> []
             then (case newCoreApiClient newLib cfg of
                     Inl e \<Rightarrow> None
                   | Inr c \<Rightarrow> Some c)
             else None);
          server1 = registerCoreApiTools coreClient server;
          server2 =
            (if curseforgeAuthorToken cfg \<noteq> []
             then (case newUploadApiClient cfg of
                     Inl e \<Rightarrow> server1
                   | Inr uploadClient \<Rightarrow> registerUploadApiTools uploadClient server1)
             else server1)
      in bind (newWebClient js files cfg) (\<lambda>webClient.
           case init js rookie webClient files of
             (Inl e, webClient1, files1) \<Rightarrow> Inl e
           | (Inr u, webClient1, files1) \<Rightarrow>
               (let server3 = registerWebApiTools webClient1 server2
                in bind (hasCookies webClient1) (\<lambda>has. Inr (server3, webClient1, files1)))))"

section \<open>The browser session of the browser-mediated dispatcher\<close>

text \<open>
  Modelled from the spec: the browser client (\<^verbatim>\<open>clients/browser-client.ts\<close>), which the
  second web client calls and which is not among the sources. The spec gives its states,
  \<^emph>\<open>uninitialized\<close>, \<^emph>\<open>launching\<close>, \<^emph>\<open>navigating-challenge\<close> and \<^emph>\<open>ready\<close>, and one shared
  initialization in progress, created on first demand, awaited by all concurrent callers
  and replaced by the ready handle once complete.

  The process has one thread of control: what a caller does up to its first \<^verbatim>\<open>await\<close> is
  one step, and the steps of the callers and of the browser interleave in any order. A
  caller's first use starts the launch when there is none, and otherwise joins the one in
  flight or, the session ready, goes ahead. The challenge ends when it is resolved or when
  its timeout expires.
\<close>

datatype session = Uninitialized | Launching | NavigatingChallenge | Ready

datatype event = FirstUse nat | Launched | ChallengeResolved | ChallengeTimedOut

record dispatcher =
  session :: session
  launches :: nat
  awaiting :: "nat list"
  served :: "nat list"

definition dispatcher0 :: dispatcher where
  "dispatcher0 = \<lparr>session = Uninitialized, launches = 0, awaiting = [], served = []\<rparr>"

definition ready :: "dispatcher \<Rightarrow> dispatcher" where
  "ready d = d\<lparr>session := Ready, served := served d @ awaiting d, awaiting := []\<rparr>"

fun step :: "dispatcher \<Rightarrow> event \<Rightarrow> dispatcher" where
  "step d (FirstUse c) =
     (case session d of
        Uninitialized \<Rightarrow> d\<lparr>session := Launching, launches := launches d + 1, awaiting := [c]\<rparr>
      | Ready \<Rightarrow> d\<lparr>served := served d @ [c]\<rparr>
      | _ \<Rightarrow> d\<lparr>awaiting := awaiting d @ [c]\<rparr>)"
| "step d Launched =
     (if session d = Launching then d\<lparr>session := NavigatingChallenge\<rparr> else d)"
| "step d ChallengeResolved = (if session d = NavigatingChallenge then ready d else d)"
| "step d ChallengeTimedOut = (if session d = NavigatingChallenge then ready d else d)"

definition run :: "event list \<Rightarrow> dispatcher" where
  "run es = foldl step dispatcher0 es"

text \<open>The callers that have made their first use.\<close>

definition callers :: "event list \<Rightarrow> nat list" where
  "callers es = concat (map (\<lambda>e. case e of FirstUse c \<Rightarrow> [c] | _ \<Rightarrow> []) es)"

section \<open>Notions used in the statements\<close>

text \<open>The cookie entry of a segment that has an \<^verbatim>\<open>=\<close>: the name is what stands before
  the first \<^verbatim>\<open>=\<close>, the value what stands after it, both trimmed.\<close>

definition entryOf :: "string \<Rightarrow> CookieEntry" where
  "entryOf seg =
     \<lparr>name = trim (takeWhile (\<lambda>x. x \<noteq> CHR ''='') seg),
      value' = trim (tl (dropWhile (\<lambda>x. x \<noteq> CHR ''='') seg)),
      domain = ''.curseforge.com'', path = ''/''\<rparr>"

text \<open>The file system lets the session file be written: the path is not a directory and
  nothing above its directory is a file.\<close>

definition writable :: "fs \<Rightarrow> path \<Rightarrow> bool" where
  "writable files p \<longleftrightarrow>
     p \<noteq> [] \<and> files p \<noteq> Some Dir \<and> \<not> list_ex (isFile files) (ancestors (dirname p))"

text \<open>The request that a client whose field holds the list \<open>cs\<close> of entries hands to
  \<^verbatim>\<open>fetch\<close>.\<close>

definition entriesRequest ::
  "http \<Rightarrow> CookieEntry list \<Rightarrow> string \<Rightarrow> string \<Rightarrow> jsval option \<Rightarrow> (string \<times> string) list
     \<Rightarrow> Request" where
  "entriesRequest h cs u m b extraHeaders =
     \<lparr>url = u, method' = m,
      headers = headersWith h (join ''; '' (map (\<lambda>c. name c @ ''='' @ value' c) cs))
                  (getXsrfToken cs) u (extraFor b extraHeaders),
      body = bodyFor h b\<rparr>"


section \<open>Example inputs\<close>

definition exampleCookies :: "CookieEntry list" where
  "exampleCookies =
     [\<lparr>name = ''session'', value' = ''s0'', domain = ''.curseforge.com'', path = ''/''\<rparr>,
      \<lparr>name = ''xsrf-Token'', value' = ''t1'', domain = ''.curseforge.com'', path = ''/''\<rparr>,
      \<lparr>name = ''X-XSRF-TOKEN'', value' = ''t2'', domain = ''.curseforge.com'', path = ''/''\<rparr>]"

text \<open>A rendering of a cookie set as a JSON text, for names and values that need no
  escape, and a parser that knows the documents of the examples, among them \<^verbatim>\<open>null\<close> and
  the number \<^verbatim>\<open>42\<close>, and rejects the rest.\<close>

definition exampleEntryText :: "CookieEntry \<Rightarrow> string" where
  "exampleEntryText c =
     ''{\"name\": \"'' @ name c @ ''\", \"value\": \"'' @ value' c
       @ ''\", \"domain\": \"'' @ domain c @ ''\", \"path\": \"'' @ path c @ ''\"}''"

definition exampleStringify :: "CookieEntry list \<Rightarrow> string" where
  "exampleStringify cs = ''['' @ join '', '' (map exampleEntryText cs) @ '']''"

definition notAList :: foreign where
  "notAList =
     \<lparr>lengthPositive = False,
      cookieHeader = Inl (Error ''this.cookies.map is not a function''),
      xsrfToken = Inl (Error ''this.cookies.find is not a function'')\<rparr>"

definition exampleJson :: json where
  "exampleJson =
     \<lparr>JSON_stringify = (\<lambda>v. case v of
                                Entries cs \<Rightarrow> exampleStringify cs
                              | Null \<Rightarrow> ''null''
                              | Foreign f \<Rightarrow> ''42''),
      JSON_parse = (\<lambda>d. if d = exampleStringify exampleCookies then Inr (Entries exampleCookies)
                         else if d = ''[]'' then Inr (Entries [])
                         else if d = ''null'' then Inr Null
                         else if d = ''42'' then Inr (Foreign notAList)
                         else Inl (Error ''SyntaxError: Unexpected token''))\<rparr>"

definition exampleConfig :: Config where
  "exampleConfig = loadConfig (\<lambda>k. None) [''srv'']"

definition exampleClient :: WebClient where
  "exampleClient = \<lparr>cookies = Entries [], config = exampleConfig\<rparr>"

text \<open>A file system with the root and the server's directory only, and one with a session
  file that is not JSON.\<close>

definition emptyFs :: fs where
  "emptyFs = [[] \<mapsto> Dir, [''srv''] \<mapsto> Dir]"

text \<open>A file system whose session file holds the JSON text \<^verbatim>\<open>null\<close>.\<close>

definition nullFs :: fs where
  "nullFs =
     [[] \<mapsto> Dir, [''srv''] \<mapsto> Dir, [''srv'', ''.auth''] \<mapsto> Dir,
      [''srv'', ''.auth'', ''cookies.json''] \<mapsto> File ''null'']"

definition corruptFs :: fs where
  "corruptFs =
     [[] \<mapsto> Dir, [''srv''] \<mapsto> Dir, [''srv'', ''.auth''] \<mapsto> Dir,
      [''srv'', ''.auth'', ''cookies.json''] \<mapsto> File ''{oops'']"


definition exampleRookie :: "unit rookieApi" where
  "exampleRookie =
     \<lparr>chrome = (\<lambda>ds. Inl (Error ''can't find any cookies'')),
      firefox = (\<lambda>ds. Inl (Error ''profile locked'')),
      edge = (\<lambda>ds. Inr (tl exampleCookies)),
      brave = (\<lambda>ds. Inr []), chromium = (\<lambda>ds. Inr []), opera = (\<lambda>ds. Inr []),
      operaGx = (\<lambda>ds. Inr []), vivaldi = (\<lambda>ds. Inr []), arc = (\<lambda>ds. Inr []),
      librewolf = (\<lambda>ds. Inr []), octoBrowser = (\<lambda>ds. Inr []),
      internetExplorer = (\<lambda>ds. Inr [])\<rparr>"

text \<open>A network that answers every request with \<open>404\<close> and an HTML body, and a client with
  a session.\<close>

definition notFound :: Response where
  "notFound =
     \<lparr>status = 404, text' = Inr ''<html>not found</html>'', contentType = Some ''text/html'',
      resUrl = ''https://www.curseforge.com/api/game/versions''\<rparr>"

definition exampleHttp :: http where
  "exampleHttp =
     \<lparr>fetch = (\<lambda>req. Inr notFound),
      stringify = (\<lambda>v. ''{}''),
      parseJson = (\<lambda>t. if t = ''{}'' then Inr (JObj []) else Inl (Error ''SyntaxError'')),
      urlOrigin = (\<lambda>u. Inr ''https://www.curseforge.com''),
      USER_AGENT = ''Mozilla/5.0''\<rparr>"


text \<open>An upload client, a network that answers \<open>500\<close> with a body of 600 code units, and
  a file to upload.\<close>

definition exampleUpload :: UploadApiClient where
  "exampleUpload = \<lparr>token = ''secret''\<rparr>"

definition serverError :: Response where
  "serverError =
     \<lparr>status = 500, text' = Inr (replicate 600 (CHR ''x'')), contentType = Some ''text/plain'',
      resUrl = ''https://www.curseforge.com/api/projects/7/upload-file''\<rparr>"

definition failingHttp :: http where
  "failingHttp = exampleHttp\<lparr>fetch := (\<lambda>req. Inr serverError)\<rparr>"

definition uploadFs :: fs where
  "uploadFs = [[] \<mapsto> Dir, [''mod.jar''] \<mapsto> File ''PK'']"

text \<open>The environments of the server's start: no variable set, the API key alone, and the
  key with the author token.\<close>

definition noSecrets :: "string \<Rightarrow> string option" where
  "noSecrets = (\<lambda>k. None)"

definition keyOnly :: "string \<Rightarrow> string option" where
  "keyOnly = [''CURSEFORGE_API_KEY'' \<mapsto> ''k1'']"

definition keyAndToken :: "string \<Rightarrow> string option" where
  "keyAndToken = [''CURSEFORGE_API_KEY'' \<mapsto> ''k1'', ''CURSEFORGE_AUTHOR_TOKEN'' \<mapsto> ''t1'']"



definition brokenBody :: Response where
  "brokenBody =
     \<lparr>status = 502, text' = Inl (Error ''terminated''), contentType = None,
      resUrl = ''https://www.curseforge.com/api/projects/7/upload-file''\<rparr>"

definition brokenHttp :: http where
  "brokenHttp = exampleHttp\<lparr>fetch := (\<lambda>req. Inr brokenBody)\<rparr>"

section \<open>Properties of the string built-ins\<close>

lemma toUpperCase_xsrf: "toUpperCase ''XSRF-TOKEN'' = ''XSRF-TOKEN''"
  by (simp add: toUpperCase_def upperChar_def)

lemma toUpperCase_x_xsrf: "toUpperCase ''X-XSRF-TOKEN'' = ''X-XSRF-TOKEN''"
  by (simp add: toUpperCase_def upperChar_def)

lemma isXsrfCookie_ignoreCase:
  "isXsrfCookie c \<longleftrightarrow>
     equalsIgnoreCase (name c) ''XSRF-TOKEN'' \<or> equalsIgnoreCase (name c) ''X-XSRF-TOKEN''"
  by (simp only: isXsrfCookie_def equalsIgnoreCase_def toUpperCase_xsrf toUpperCase_x_xsrf)

lemma find_first_index:
  "find P xs = Some x \<longleftrightarrow>
     (\<exists>i < length xs. P (xs ! i) \<and> x = xs ! i \<and> (\<forall>j < i. \<not> P (xs ! j)))"
  by (rule find_Some_iff)

lemma split_not_Nil: "split sep s \<noteq> []"
  by (induction s) (auto split: list.splits)

lemma split_no_sep: "seg \<in> set (split sep s) \<Longrightarrow> sep \<notin> set seg"
proof (induction s arbitrary: seg)
  case Nil
  then show ?case by simp
next
  case (Cons x xs)
  obtain y ys where y: "split sep xs = y # ys"
    using split_not_Nil [of sep xs] by (cases "split sep xs") auto
  show ?case
  proof (cases "x = sep")
    case True
    with Cons show ?thesis by auto
  next
    case False
    with Cons.prems y have "seg = x # y \<or> seg \<in> set ys"
      by simp
    then show ?thesis
    proof
      assume "seg = x # y"
      moreover have "sep \<notin> set y"
        using Cons.IH [of y] y by simp
      ultimately show ?thesis using False by simp
    next
      assume "seg \<in> set ys"
      then have "seg \<in> set (split sep xs)" using y by simp
      then show ?thesis by (rule Cons.IH)
    qed
  qed
qed

lemma join_split: "join [sep] (split sep s) = s"
proof (induction s)
  case Nil
  then show ?case by simp
next
  case (Cons x xs)
  obtain y ys where y: "split sep xs = y # ys"
    using split_not_Nil [of sep xs] by (cases "split sep xs") auto
  with Cons show ?case by (cases ys) auto
qed

lemma indexOf_None: "indexOf s c = None \<longleftrightarrow> c \<notin> set s"
  by (induction s) auto

lemma indexOf_Some:
  "indexOf s c = Some i \<Longrightarrow>
     take i s = takeWhile (\<lambda>x. x \<noteq> c) s \<and> drop (i + 1) s = tl (dropWhile (\<lambda>x. x \<noteq> c) s)"
  by (induction s arbitrary: i) (auto split: if_splits)

lemma parseSegment_eq:
  "parseSegment seg = (if CHR ''='' \<in> set seg then Some (entryOf seg) else None)"
proof (cases "indexOf seg (CHR ''='')")
  case None
  moreover from None have "CHR ''='' \<notin> set seg" by (simp add: indexOf_None)
  ultimately show ?thesis by (simp add: parseSegment_def)
next
  case (Some i)
  then have "CHR ''='' \<in> set seg" using indexOf_None [of seg "CHR ''=''"] by auto
  with Some indexOf_Some [OF Some] show ?thesis
    by (simp add: parseSegment_def entryOf_def)
qed

lemma parse_pipeline:
  "map the (filter (\<lambda>c. c \<noteq> None) (map parseSegment (filter (\<lambda>c. c \<noteq> []) segs)))
     = map entryOf (filter (\<lambda>seg. CHR ''='' \<in> set seg) segs)"
  by (induction segs) (auto simp: parseSegment_eq)

lemma parseCookieString_eq:
  "parseCookieString s =
     map entryOf (filter (\<lambda>seg. CHR ''='' \<in> set seg) (map trim (split (CHR '';'') s)))"
  unfolding parseCookieString_def by (rule parse_pipeline)

section \<open>Properties of the file system and the session file\<close>

lemma loadCookies_total: "\<exists>w. loadCookies js files this = Inr w"
  by (auto simp: loadCookies_def tryCatch_def bind_def split: sum.splits)

lemma loadCookies_missing:
  "\<not> existsSync files (cookiesPath (config this)) \<Longrightarrow> loadCookies js files this = Inr this"
  by (simp add: loadCookies_def)

lemma loadCookies_unparsed:
  "files (cookiesPath (config this)) = Some (File d) \<Longrightarrow> JSON_parse js d = Inl e \<Longrightarrow>
     loadCookies js files this = Inr (this\<lparr>cookies := Entries []\<rparr>)"
  by (simp add: loadCookies_def existsSync_def readFileSync_def tryCatch_def bind_def)

lemma loadCookies_unreadable:
  "files (cookiesPath (config this)) = Some Dir \<Longrightarrow>
     loadCookies js files this = Inr (this\<lparr>cookies := Entries []\<rparr>)"
  by (simp add: loadCookies_def existsSync_def readFileSync_def tryCatch_def bind_def)

lemma loadCookies_parsed:
  "files (cookiesPath (config this)) = Some (File d) \<Longrightarrow> JSON_parse js d = Inr v \<Longrightarrow>
     loadCookies js files this = Inr (this\<lparr>cookies := v\<rparr>)"
  by (simp add: loadCookies_def existsSync_def readFileSync_def tryCatch_def bind_def)

lemma self_in_ancestors: "p \<in> set (ancestors p)"
proof -
  have "take (length p) p \<in> (\<lambda>n. take n p) ` {0 ..< Suc (length p)}"
    by (rule imageI) simp
  then show ?thesis by (simp add: ancestors_def)
qed

lemma ancestors_length: "q \<in> set (ancestors p) \<Longrightarrow> length q \<le> length p"
  by (auto simp: ancestors_def)

lemma dirname_shorter: "p \<noteq> [] \<Longrightarrow> length (dirname p) < length p"
  unfolding dirname_def by (cases p rule: rev_cases) simp_all

lemma not_in_ancestors_dirname: "p \<noteq> [] \<Longrightarrow> p \<notin> set (ancestors (dirname p))"
proof
  assume "p \<noteq> []" and "p \<in> set (ancestors (dirname p))"
  then have "length p \<le> length (dirname p)" by (simp add: ancestors_length)
  with dirname_shorter [OF \<open>p \<noteq> []\<close>] show False by simp
qed

lemma dirname_neq: "p \<noteq> [] \<Longrightarrow> dirname p \<noteq> p"
proof
  assume "p \<noteq> []" and "dirname p = p"
  with dirname_shorter [of p] show False by simp
qed

lemma mkdirSync_result:
  "mkdirSync files d = Inr files1 \<Longrightarrow>
     files1 d = Some Dir \<and> (\<forall>q. q \<notin> set (ancestors d) \<longrightarrow> files1 q = files q)"
  by (auto simp: mkdirSync_def self_in_ancestors split: if_splits)

lemma writeFileSync_result:
  "writeFileSync files p d = Inr files1 \<Longrightarrow>
     files1 = files(p \<mapsto> File d) \<and> files (dirname p) = Some Dir \<and> files p \<noteq> Some Dir"
  by (auto simp: writeFileSync_def split: if_splits)

lemma saveCookies_written:
  assumes "saveCookies js this files = (Inr (), files1)"
  shows "files1 (cookiesPath (config this)) = Some (File (JSON_stringify js (cookies this)))
         \<and> files1 (dirname (cookiesPath (config this))) = Some Dir"
proof -
  let ?p = "cookiesPath (config this)"
  let ?made = "if \<not> existsSync files (dirname ?p) then mkdirSync files (dirname ?p) else Inr files"
  from assms obtain files0 where made: "?made = Inr files0"
    and w: "writeFileSync files0 ?p (JSON_stringify js (cookies this)) = Inr files1"
    by (auto simp: saveCookies_def Let_def split: sum.splits)
  from writeFileSync_result [OF w]
  have eq: "files1 = files0(?p \<mapsto> File (JSON_stringify js (cookies this)))"
    and dir: "files0 (dirname ?p) = Some Dir" and nd: "files0 ?p \<noteq> Some Dir"
    by blast+
  from dir nd have "dirname ?p \<noteq> ?p" by auto
  with eq dir show ?thesis by simp
qed

lemma saveCookies_writable:
  assumes "writable files (cookiesPath (config this))"
  shows "fst (saveCookies js this files) = Inr ()"
proof -
  let ?p = "cookiesPath (config this)"
  let ?d = "dirname ?p"
  from assms have ne: "?p \<noteq> []" and nd: "files ?p \<noteq> Some Dir"
    and nf: "\<not> list_ex (isFile files) (ancestors ?d)"
    by (simp_all add: writable_def)
  from nf have dnf: "\<not> isFile files ?d"
    using self_in_ancestors [of ?d] by (auto simp: list_ex_iff)
  show ?thesis
  proof (cases "existsSync files ?d")
    case True
    with dnf have "files ?d = Some Dir"
      by (auto simp: existsSync_def isFile_def split: option.splits node.splits)
    with True nd show ?thesis
      by (simp add: saveCookies_def Let_def writeFileSync_def)
  next
    case False
    let ?files0 = "\<lambda>q. if q \<in> set (ancestors ?d) then Some Dir else files q"
    from nf have mk: "mkdirSync files ?d = Inr ?files0" by (simp add: mkdirSync_def)
    have "?files0 ?p = files ?p" using not_in_ancestors_dirname [OF ne] by simp
    with nd have 1: "?files0 ?p \<noteq> Some Dir" by simp
    have 2: "?files0 ?d = Some Dir" using self_in_ancestors [of ?d] by simp
    from 1 2 have "\<exists>f. writeFileSync ?files0 ?p (JSON_stringify js (cookies this)) = Inr f"
      by (simp add: writeFileSync_def)
    with False mk show ?thesis
      by (auto simp: saveCookies_def Let_def)
  qed
qed


lemma reload_after_save:
  assumes "files1 (cookiesPath cfg) = Some (File d)" and "JSON_parse js d = Inr v"
  shows "newWebClient js files1 cfg = Inr \<lparr>cookies = v, config = cfg\<rparr>"
  using assms
  by (simp add: newWebClient_def loadCookies_def existsSync_def readFileSync_def
      tryCatch_def bind_def)

lemma setCookies_success:
  assumes "setCookies js cs this files = (Inr (), this1, files1)"
  shows "this1 = this\<lparr>cookies := Entries cs\<rparr>
         \<and> files1 (cookiesPath (config this)) = Some (File (JSON_stringify js (Entries cs)))
         \<and> files1 (dirname (cookiesPath (config this))) = Some Dir"
proof -
  from assms have s: "saveCookies js (this\<lparr>cookies := Entries cs\<rparr>) files = (Inr (), files1)"
    and t: "this1 = this\<lparr>cookies := Entries cs\<rparr>"
    by (auto simp: setCookies_def Let_def split: prod.splits)
  from saveCookies_written [OF s] t show ?thesis by simp
qed

lemma setCookiesFromString_success:
  assumes "setCookiesFromString js s this files = (Inr (), this1, files1)"
  shows "this1 = this\<lparr>cookies := Entries (parseCookieString s)\<rparr>
         \<and> files1 (cookiesPath (config this))
             = Some (File (JSON_stringify js (Entries (parseCookieString s))))
         \<and> files1 (dirname (cookiesPath (config this))) = Some Dir"
proof -
  from assms
  have s: "saveCookies js (this\<lparr>cookies := Entries (parseCookieString s)\<rparr>) files = (Inr (), files1)"
    and t: "this1 = this\<lparr>cookies := Entries (parseCookieString s)\<rparr>"
    by (auto simp: setCookiesFromString_def Let_def split: prod.splits)
  from saveCookies_written [OF s] t show ?thesis by simp
qed

lemma autoExtractCookies_adopts:
  assumes "extractCookies rookie = Inr result" and "cookies' result \<noteq> []"
    and "saveCookies js (this\<lparr>cookies := Entries (cookies' result)\<rparr>) files = (Inr (), files1)"
  shows "autoExtractCookies js rookie this files =
           (Inr (''Extracted '' @ showNat (length (cookies' result)) @ '' cookies from ''
                   @ browser result),
            this\<lparr>cookies := Entries (cookies' result)\<rparr>, files1)"
  using assms by (simp add: autoExtractCookies_def autoExtractBody_def Let_def)



section \<open>Properties of the cookie extractor\<close>





lemma browsers_names:
  "map fst (browsers api)
     = [''Chrome'', ''Firefox'', ''Edge'', ''Brave'', ''Chromium'', ''Opera'', ''Opera GX'',
        ''Vivaldi'', ''Arc'', ''LibreWolf'', ''OctoBrowser'', ''Internet Explorer'']"
  by (simp add: browsers_def)


lemma autoExtractCookies_total:
  "\<exists>msg this1 files1. autoExtractCookies js rookie this files = (Inr msg, this1, files1)"
proof -
  obtain r this1 files1 where b: "autoExtractBody js rookie this files = (r, this1, files1)"
    by (cases "autoExtractBody js rookie this files")
  then show ?thesis
    by (cases r) (simp_all add: autoExtractCookies_def)
qed


lemma autoExtractCookies_reports:
  assumes "extractCookies rookie = Inr result" and "cookies' result \<noteq> []"
    and "fst (saveCookies js (this\<lparr>cookies := Entries (cookies' result)\<rparr>) files) = Inr ()"
  shows "fst (autoExtractCookies js rookie this files)
           = Inr (''Extracted '' @ showNat (length (cookies' result)) @ '' cookies from ''
                    @ browser result)"
proof -
  from assms(3) obtain f
    where "saveCookies js (this\<lparr>cookies := Entries (cookies' result)\<rparr>) files = (Inr (), f)"
    by (cases "saveCookies js (this\<lparr>cookies := Entries (cookies' result)\<rparr>) files") auto
  from autoExtractCookies_adopts [OF assms(1,2) this] show ?thesis by simp
qed

section \<open>Properties of the requests and the web tools\<close>

lemma includes_iff: "includes' a b \<longleftrightarrow> (\<exists>i \<le> length a. take (length b) (drop i a) = b)"
proof -
  have "set [0 ..< Suc (length a)] = {i. i \<le> length a}" by auto
  then show ?thesis unfolding includes'_def list_ex_iff by blast
qed

lemma includes_mid: "includes' (a @ b @ c) b"
proof -
  have "take (length b) (drop (length a) (a @ b @ c)) = b" by simp
  moreover have "length a \<le> length (a @ b @ c)" by simp
  ultimately show ?thesis unfolding includes_iff by blast
qed

lemma includes_suffix: "includes' (a @ b) b"
  using includes_mid [of a b "[]"] by simp





lemma fetchArgs_entries:
  "cookies this = Entries cs \<Longrightarrow>
     fetchArgs h this u m b eh = Inr (entriesRequest h cs u m b eh)"
  by (simp add: fetchArgs_def browserHeaders_def getCookieHeader_def storedXsrfToken_def
      bind_def entriesRequest_def)

lemma fetchArgs_url:
  "fetchArgs h this u m b eh = Inr req \<Longrightarrow> url req = u \<and> method' req = m \<and> body req = bodyFor h b"
  by (auto simp: fetchArgs_def bind_def split: sum.splits)

lemma request_unsent:
  "fetchArgs h this u m b eh = Inl e \<Longrightarrow> request h this u m b eh sent = (Inl e, sent)"
  by (simp add: request_def)

lemma request_sent:
  "fetchArgs h this u m b eh = Inr req \<Longrightarrow> snd (request h this u m b eh sent) = sent @ [req]"
  by (simp add: request_def)


lemma request_rejected:
  assumes "fetchArgs h this u m b eh = Inr req" and "fetch h req = Inl e"
  shows "request h this u m b eh sent = (Inl e, sent @ [req])"
  using assms by (simp add: request_def)


lemma noSession_result:
  "noSession = \<lparr>content = [''Error: No session cookies. Use cf_auto_extract_cookies first.''],
                 isError = Some True\<rparr>"
  by (simp add: noSession_def error_def)

lemma hasCookies_entries: "cookies this = Entries cs \<Longrightarrow> hasCookies this = Inr (cs \<noteq> [])"
  by (simp add: hasCookies_def)

lemma hasCookies_null:
  "cookies this = Null \<Longrightarrow>
     hasCookies this = Inl (Error ''Cannot read properties of null (reading 'length')'')"
  by (simp add: hasCookies_def)

lemma hasCookies_throws_iff: "(\<exists>e. hasCookies this = Inl e) \<longleftrightarrow> cookies this = Null"
  by (cases "cookies this") (simp_all add: hasCookies_def)







lemma cf_fetch_page_bad_body:
  assumes "m = POST \<or> m = PUT" and "parseBody h b = Inl e"
  shows "cf_fetch_page h client u m b sent = (caught ''cf_fetch_page'' e, sent)"
  using assms by (auto simp: cf_fetch_page_def Let_def)

lemma guarded_no_session:
  assumes "hasCookies client = Inr False"
  shows "get_comments h render client mod_id page page_size sent = (Inr noSession, sent)"
    and "post_comment h client mod_id comment_text reply_to_id sent = (Inr noSession, sent)"
    and "delete_comment h client mod_id comment_id sent = (Inr noSession, sent)"
    and "get_project_settings h client project_id sent = (Inr noSession, sent)"
    and "update_project_description h client project_id description sent
           = (Inr noSession, sent)"
  using assms
  by (simp_all add: get_comments_def post_comment_def delete_comment_def
      get_project_settings_def update_project_description_def)


lemma cf_fetch_page_sent:
  "snd (cf_fetch_page h client u m b sent) =
     (let fullUrl = (if startsWith u ''http'' then u else CF_BASE @ u)
      in case m of
           GET \<Rightarrow> snd (request h client fullUrl ''GET'' None [] sent)
         | DELETE \<Rightarrow> snd (request h client fullUrl ''DELETE'' None [] sent)
         | POST \<Rightarrow> (case parseBody h b of
                       Inl e \<Rightarrow> sent
                     | Inr v \<Rightarrow> snd (request h client fullUrl ''POST'' v [] sent))
         | PUT \<Rightarrow> (case parseBody h b of
                      Inl e \<Rightarrow> sent
                    | Inr v \<Rightarrow> snd (request h client fullUrl ''PUT'' v [] sent)))"
  by (cases m)
    (auto simp: cf_fetch_page_def Let_def get_def post_def put_def delete_def
      split: sum.splits prod.splits)

section \<open>Properties of the upload client\<close>

lemma uploadGet_not_ok:
  assumes "fetch h \<lparr>url = u, method' = ''GET'', headers = uploadHeaders h this, body = NoBody\<rparr>
             = Inr res" and "\<not> ok res"
  shows "uploadGet h this u sent
           = (Inl (Error (''Upload API error '' @ showNat (status res) @ '' at '' @ resUrl res)),
              sent @ [\<lparr>url = u, method' = ''GET'', headers = uploadHeaders h this, body = NoBody\<rparr>])"
  using assms by (simp add: uploadGet_def Let_def)

lemma uploadGet_sent:
  "snd (uploadGet h this u sent)
     = sent @ [\<lparr>url = u, method' = ''GET'', headers = uploadHeaders h this, body = NoBody\<rparr>]"
  by (simp add: uploadGet_def Let_def)

lemma uploadFile_not_ok:
  assumes "readFileSync files filePath = Inr fileBuffer"
    and "req = \<lparr>url = BASE_URL @ ''/api/projects/'' @ showInt projectId @ ''/upload-file'',
                method' = ''POST'',
                headers = [(''X-Api-Token'', token this), (''User-Agent'', USER_AGENT h)],
                body = FormData [(''metadata'', Field (stringify h metadata)),
                                 (''file'', Blob fileBuffer (basename filePath))]\<rparr>"
    and "fetch h req = Inr res" and "\<not> ok res" and "text' res = Inr errorText"
  shows "uploadFile h files this projectId filePath metadata sent
           = (Inl (Error (''Upload failed ('' @ showNat (status res) @ ''): '' @ errorText)),
              sent @ [req])"
  using assms by (simp add: uploadFile_def Let_def)

lemma uploadFile_sent:
  "snd (uploadFile h files this projectId filePath metadata sent) = sent
   \<or> (\<exists>req. snd (uploadFile h files this projectId filePath metadata sent) = sent @ [req])"
  by (simp add: uploadFile_def Let_def split: sum.splits)

lemma includes_upload_status:
  "includes' (''Upload failed ('' @ showNat st @ ''): '' @ errorText) (showNat st)"
  by (rule includes_mid)

lemma includes_upload_text:
  "includes' (''Upload failed ('' @ showNat st @ ''): '' @ errorText) errorText"
proof -
  have "''Upload failed ('' @ showNat st @ ''): '' @ errorText
      = (''Upload failed ('' @ showNat st @ ''): '') @ errorText" by simp
  then show ?thesis by (simp only: includes_suffix)
qed

lemma includes_versions_status:
  "includes' (''Upload API error '' @ showNat st @ '' at '' @ ru) (showNat st)"
  by (rule includes_mid)

lemma uploadFile_unreadable:
  assumes "readFileSync files filePath = Inr fileBuffer"
    and "req = \<lparr>url = BASE_URL @ ''/api/projects/'' @ showInt projectId @ ''/upload-file'',
                method' = ''POST'',
                headers = [(''X-Api-Token'', token this), (''User-Agent'', USER_AGENT h)],
                body = FormData [(''metadata'', Field (stringify h metadata)),
                                 (''file'', Blob fileBuffer (basename filePath))]\<rparr>"
    and "fetch h req = Inr res" and "\<not> ok res" and "text' res = Inl e"
  shows "uploadFile h files this projectId filePath metadata sent = (Inl e, sent @ [req])"
  using assms by (simp add: uploadFile_def Let_def)

lemma uploadFile_no_file:
  assumes "readFileSync files filePath = Inl e"
  shows "uploadFile h files this projectId filePath metadata sent = (Inl e, sent)"
  using assms by (simp add: uploadFile_def)

section \<open>Properties of the registration\<close>

lemma registerAll_tools: "tools (registerAll nms server) = tools server @ nms"
  unfolding registerAll_def
  by (induction nms arbitrary: server) (simp_all add: registerTool_def)

lemma registerCoreApiTools_tools:
  "tools (registerCoreApiTools client server)
     = tools server @ (if client \<noteq> None then coreTools else []) @ cfwidgetTools"
  by (simp add: registerCoreApiTools_def registerAll_tools)

lemma autoExtractCookies_field:
  "cookies (fst (snd (autoExtractCookies js rookie this files))) = cookies this
   \<or> (\<exists>cs. cookies (fst (snd (autoExtractCookies js rookie this files))) = Entries cs)"
  by (auto simp: autoExtractCookies_def autoExtractBody_def Let_def
      split: sum.splits prod.splits)

lemma init_null:
  "cookies this = Null \<Longrightarrow>
     init js rookie this files
       = (Inl (Error ''Cannot read properties of null (reading 'length')''), this, files)"
  by (simp add: init_def hasCookies_def)

lemma init_returns:
  assumes "cookies this \<noteq> Null"
  shows "\<exists>this1 files1. init js rookie this files = (Inr (), this1, files1)
           \<and> cookies this1 \<noteq> Null"
proof -
  from assms obtain has where h: "hasCookies this = Inr has"
    using hasCookies_throws_iff [of this] by (cases "hasCookies this") auto
  show ?thesis
  proof (cases has)
    case True
    with h assms show ?thesis by (simp add: init_def)
  next
    case False
    from autoExtractCookies_total [of js rookie this files]
    obtain msg this1 files1
      where a: "autoExtractCookies js rookie this files = (Inr msg, this1, files1)" by blast
    from autoExtractCookies_field [of js rookie this files] a assms
    have "cookies this1 \<noteq> Null" by auto
    with False h a show ?thesis by (simp add: init_def)
  qed
qed

lemma newWebClient_total: "\<exists>w. newWebClient js files cfg = Inr w"
  unfolding newWebClient_def by (rule loadCookies_total)

lemma newWebClient_null:
  assumes "newWebClient js files cfg = Inr w"
  shows "cookies w = Null
           \<longleftrightarrow> (\<exists>d. files (cookiesPath cfg) = Some (File d) \<and> JSON_parse js d = Inr Null)"
  using assms
  by (auto simp: newWebClient_def loadCookies_def existsSync_def readFileSync_def
      tryCatch_def bind_def split: if_splits option.splits node.splits sum.splits)

lemma newCoreApiClient_ok:
  "curseforgeApiKey cfg \<noteq> [] \<Longrightarrow>
     (\<exists>c. newCoreApiClient newLib cfg = Inr c) \<longleftrightarrow> newLib (curseforgeApiKey cfg) = Inr ()"
  by (cases "newLib (curseforgeApiKey cfg)") (simp_all add: newCoreApiClient_def bind_def)

text \<open>The server before the web tools are registered.\<close>

lemma before_web_tools:
  fixes env root newLib
  defines "cfg \<equiv> loadConfig env root"
  defines "core \<equiv> (if curseforgeApiKey cfg \<noteq> []
             then (case newCoreApiClient newLib cfg of Inl e \<Rightarrow> None | Inr c \<Rightarrow> Some c)
             else None)"
  defines "s1 \<equiv> registerCoreApiTools core \<lparr>tools = []\<rparr>"
  defines "s2 \<equiv> (if curseforgeAuthorToken cfg \<noteq> []
             then (case newUploadApiClient cfg of
                     Inl e \<Rightarrow> s1
                   | Inr uploadClient \<Rightarrow> registerUploadApiTools uploadClient s1)
             else s1)"
  shows "tools s2
      = (if envOr env ''CURSEFORGE_API_KEY'' \<noteq> []
              \<and> newLib (envOr env ''CURSEFORGE_API_KEY'') = Inr ()
           then coreTools else [])
          @ cfwidgetTools
          @ (if envOr env ''CURSEFORGE_AUTHOR_TOKEN'' \<noteq> [] then uploadTools else [])"
proof -
  have k: "curseforgeApiKey cfg = envOr env ''CURSEFORGE_API_KEY''"
    and t: "curseforgeAuthorToken cfg = envOr env ''CURSEFORGE_AUTHOR_TOKEN''"
    by (simp_all add: cfg_def loadConfig_def)
  have c: "core \<noteq> None \<longleftrightarrow>
      envOr env ''CURSEFORGE_API_KEY'' \<noteq> [] \<and> newLib (envOr env ''CURSEFORGE_API_KEY'') = Inr ()"
    using newCoreApiClient_ok [of cfg newLib] k
    by (auto simp: core_def split: sum.splits)
  have s1: "tools s1 = (if core \<noteq> None then coreTools else []) @ cfwidgetTools"
    unfolding s1_def by (simp only: registerCoreApiTools_tools) simp
  have "tools s2 = tools s1
      @ (if envOr env ''CURSEFORGE_AUTHOR_TOKEN'' \<noteq> [] then uploadTools else [])"
    unfolding s2_def using t
    by (simp add: newUploadApiClient_def registerUploadApiTools_def registerAll_tools)
  with s1 c show ?thesis by simp
qed

lemma createServer_null:
  assumes "files (cookiesPath (loadConfig env root)) = Some (File d)"
    and "JSON_parse js d = Inr Null"
  shows "createServer env root newLib js rookie files
           = Inl (Error ''Cannot read properties of null (reading 'length')'')"
proof -
  from reload_after_save [of files "loadConfig env root" d js Null, OF assms]
  have w: "newWebClient js files (loadConfig env root)
      = Inr \<lparr>cookies = Null, config = loadConfig env root\<rparr>" .
  have "init js rookie \<lparr>cookies = Null, config = loadConfig env root\<rparr> files
      = (Inl (Error ''Cannot read properties of null (reading 'length')''),
         \<lparr>cookies = Null, config = loadConfig env root\<rparr>, files)"
    by (rule init_null) simp
  with w show ?thesis by (simp add: createServer_def Let_def bind_def)
qed

lemma createServer_result:
  assumes "\<not> (\<exists>d. files (cookiesPath (loadConfig env root)) = Some (File d)
                \<and> JSON_parse js d = Inr Null)"
  shows "\<exists>server webClient files1.
      createServer env root newLib js rookie files = Inr (server, webClient, files1)
    \<and> tools server
        = (if envOr env ''CURSEFORGE_API_KEY'' \<noteq> []
              \<and> newLib (envOr env ''CURSEFORGE_API_KEY'') = Inr ()
           then coreTools else [])
          @ cfwidgetTools
          @ (if envOr env ''CURSEFORGE_AUTHOR_TOKEN'' \<noteq> [] then uploadTools else [])
          @ webTools"
proof -
  let ?cfg = "loadConfig env root"
  obtain w where w: "newWebClient js files ?cfg = Inr w"
    using newWebClient_total by blast
  with assms have "cookies w \<noteq> Null" using newWebClient_null [OF w] by blast
  from init_returns [OF this, of js rookie files]
  obtain w1 f1 where i: "init js rookie w files = (Inr (), w1, f1)" and n: "cookies w1 \<noteq> Null"
    by blast
  from n obtain has where h: "hasCookies w1 = Inr has"
    using hasCookies_throws_iff [of w1] by (cases "hasCookies w1") auto
  let ?core = "if curseforgeApiKey ?cfg \<noteq> []
             then (case newCoreApiClient newLib ?cfg of Inl e \<Rightarrow> None | Inr c \<Rightarrow> Some c)
             else None"
  let ?s1 = "registerCoreApiTools ?core \<lparr>tools = []\<rparr>"
  let ?s2 = "if curseforgeAuthorToken ?cfg \<noteq> []
             then (case newUploadApiClient ?cfg of
                     Inl e \<Rightarrow> ?s1
                   | Inr uploadClient \<Rightarrow> registerUploadApiTools uploadClient ?s1)
             else ?s1"
  have "createServer env root newLib js rookie files
      = Inr (registerWebApiTools w1 ?s2, w1, f1)"
    using w i h by (simp add: createServer_def Let_def bind_def)
  moreover have "tools (registerWebApiTools w1 ?s2)
      = (if envOr env ''CURSEFORGE_API_KEY'' \<noteq> []
              \<and> newLib (envOr env ''CURSEFORGE_API_KEY'') = Inr ()
           then coreTools else [])
          @ cfwidgetTools
          @ (if envOr env ''CURSEFORGE_AUTHOR_TOKEN'' \<noteq> [] then uploadTools else [])
          @ webTools"
    unfolding registerWebApiTools_def registerAll_tools
    by (simp only: before_web_tools [of env root newLib]) simp
  ultimately show ?thesis by blast
qed

lemma core_disjoint:
  "set coreTools \<inter> set (cfwidgetTools @ uploadTools @ webTools) = {}"
  by (simp add: coreTools_def cfwidgetTools_def uploadTools_def webTools_def)

lemma upload_disjoint:
  "set uploadTools \<inter> set (coreTools @ cfwidgetTools @ webTools) = {}"
  by (simp add: coreTools_def cfwidgetTools_def uploadTools_def webTools_def)

section \<open>Properties of the browser session\<close>

lemma run_snoc: "run (es @ [e]) = step (run es) e"
  by (simp add: run_def)

lemma callers_snoc:
  "callers (es @ [e]) = callers es @ (case e of FirstUse c \<Rightarrow> [c] | _ \<Rightarrow> [])"
  by (simp add: callers_def)

lemma run_invariant:
  "launches (run es) = (if session (run es) = Uninitialized then 0 else 1)
   \<and> (session (run es) = Uninitialized \<longleftrightarrow> callers es = [])
   \<and> served (run es) @ awaiting (run es) = callers es
   \<and> (session (run es) = Ready \<longrightarrow> awaiting (run es) = [])"
proof (induction es rule: rev_induct)
  case Nil
  show ?case by (simp add: run_def dispatcher0_def callers_def)
next
  case (snoc e es)
  show ?case
  proof (cases e)
    case (FirstUse c)
    with snoc show ?thesis
      by (cases "session (run es)") (auto simp: run_snoc callers_snoc)
  next
    case Launched
    with snoc show ?thesis
      by (auto simp: run_snoc callers_snoc)
  next
    case ChallengeResolved
    with snoc show ?thesis
      by (auto simp: run_snoc callers_snoc ready_def)
  next
    case ChallengeTimedOut
    with snoc show ?thesis
      by (auto simp: run_snoc callers_snoc ready_def)
  qed
qed

section \<open>Properties of the example inputs\<close>

lemma exampleConfig_path: "cookiesPath exampleConfig = [''srv'', ''.auth'', ''cookies.json'']"
  by (simp add: exampleConfig_def loadConfig_def)

lemma example_roundtrip:
  "JSON_parse exampleJson (JSON_stringify exampleJson (Entries exampleCookies))
     = Inr (Entries exampleCookies)"
  by (simp add: exampleJson_def)

lemma example_writable: "writable emptyFs (cookiesPath (config exampleClient))"
  by (simp add: writable_def exampleClient_def exampleConfig_path emptyFs_def dirname_def
      ancestors_def isFile_def)








lemma showNat_404: "showNat 404 = ''404''"
  by (simp add: showNat.simps digit_def)

lemma showNat_500: "showNat 500 = ''500''"
  by (simp add: showNat.simps digit_def)

lemma showInt_7: "showInt 7 = ''7''"
  by (simp add: showInt_def showNat.simps digit_def)

lemma example_versions:
  "getGameVersions exampleHttp exampleUpload []
     = (Inl (Error ''Upload API error 404 at https://www.curseforge.com/api/game/versions''),
        [\<lparr>url = ''https://www.curseforge.com/api/game/versions'', method' = ''GET'',
          headers = [(''X-Api-Token'', ''secret''), (''User-Agent'', ''Mozilla/5.0'')],
          body = NoBody\<rparr>])"
  by (simp add: getGameVersions_def uploadGet_def Let_def exampleHttp_def notFound_def ok_def
      showNat_404 BASE_URL_def uploadHeaders_def exampleUpload_def)

lemma example_upload:
  "fst (uploadFile failingHttp uploadFs exampleUpload 7 [''mod.jar''] JNull [])
     = Inl (Error (''Upload failed (500): '' @ replicate 600 (CHR ''x'')))"
  by (simp add: uploadFile_def Let_def failingHttp_def serverError_def ok_def showNat_500
      readFileSync_def uploadFs_def)

lemma example_no_secrets:
  "createServer noSecrets [''srv''] (\<lambda>k. Inr ()) exampleJson (None :: unit rookieApi option)
     emptyFs
   = Inr (\<lparr>tools = cfwidgetTools @ webTools\<rparr>, exampleClient, emptyFs)"
  by (simp add: createServer_def Let_def bind_def loadConfig_def envOr_def noSecrets_def
      registerCoreApiTools_def registerWebApiTools_def registerAll_tools
      newWebClient_def loadCookies_def existsSync_def emptyFs_def
      init_def hasCookies_def autoExtractCookies_def autoExtractBody_def extractCookies_def
      exampleClient_def exampleConfig_def)

lemma example_null_path: "cookiesPath (loadConfig noSecrets [''srv'']) = [''srv'', ''.auth'', ''cookies.json'']"
  by (simp add: loadConfig_def)



section \<open>Claims\<close>

text \<open>
  C1 (amended). Whenever the start of the server returns, and it returns whenever the session
  file does not hold the JSON value \<^verbatim>\<open>null\<close>, what it has registered is decided by the
  configuration alone: the tools of the core client exactly when the API key is not empty
  and the construction of the client does not throw, the upload tools exactly when the
  author token is not empty, and the CFWidget tools and the web tools always, whatever the
  cookie set is. A group is registered whole or not at all.
\<close>

theorem createServer_registers:
  "(\<forall>server webClient files1.
      createServer env root newLib js rookie files = Inr (server, webClient, files1) \<longrightarrow>
        tools server
          = (if envOr env ''CURSEFORGE_API_KEY'' \<noteq> []
                \<and> newLib (envOr env ''CURSEFORGE_API_KEY'') = Inr ()
             then coreTools else [])
            @ cfwidgetTools
            @ (if envOr env ''CURSEFORGE_AUTHOR_TOKEN'' \<noteq> [] then uploadTools else [])
            @ webTools
      \<and> (envOr env ''CURSEFORGE_API_KEY'' \<noteq> []
            \<and> newLib (envOr env ''CURSEFORGE_API_KEY'') = Inr ()
          \<longrightarrow> set coreTools \<subseteq> set (tools server))
      \<and> (envOr env ''CURSEFORGE_API_KEY'' = []
            \<or> newLib (envOr env ''CURSEFORGE_API_KEY'') \<noteq> Inr ()
          \<longrightarrow> set coreTools \<inter> set (tools server) = {})
      \<and> (envOr env ''CURSEFORGE_AUTHOR_TOKEN'' \<noteq> []
          \<longrightarrow> set uploadTools \<subseteq> set (tools server))
      \<and> (envOr env ''CURSEFORGE_AUTHOR_TOKEN'' = []
          \<longrightarrow> set uploadTools \<inter> set (tools server) = {})
      \<and> set cfwidgetTools \<subseteq> set (tools server)
      \<and> set webTools \<subseteq> set (tools server))
   \<and> (\<not> (\<exists>d. files (cookiesPath (loadConfig env root)) = Some (File d)
              \<and> JSON_parse js d = Inr Null)
        \<longrightarrow> (\<exists>server webClient files1.
               createServer env root newLib js rookie files = Inr (server, webClient, files1)))"
proof (intro conjI allI impI)
  fix server webClient files1
  assume c: "createServer env root newLib js rookie files = Inr (server, webClient, files1)"
  have "\<not> (\<exists>d. files (cookiesPath (loadConfig env root)) = Some (File d)
              \<and> JSON_parse js d = Inr Null)"
  proof
    assume "\<exists>d. files (cookiesPath (loadConfig env root)) = Some (File d)
              \<and> JSON_parse js d = Inr Null"
    then obtain d where "files (cookiesPath (loadConfig env root)) = Some (File d)"
      and "JSON_parse js d = Inr Null" by blast
    from createServer_null [of files env root d js newLib rookie, OF this] c
    show False by simp
  qed
  from createServer_result [of files env root js newLib rookie, OF this] c
  show t: "tools server
          = (if envOr env ''CURSEFORGE_API_KEY'' \<noteq> []
                \<and> newLib (envOr env ''CURSEFORGE_API_KEY'') = Inr ()
             then coreTools else [])
            @ cfwidgetTools
            @ (if envOr env ''CURSEFORGE_AUTHOR_TOKEN'' \<noteq> [] then uploadTools else [])
            @ webTools"
    by auto
  {
    assume "envOr env ''CURSEFORGE_API_KEY'' \<noteq> []
            \<and> newLib (envOr env ''CURSEFORGE_API_KEY'') = Inr ()"
    then show "set coreTools \<subseteq> set (tools server)" unfolding t by auto
  }
  {
    assume "envOr env ''CURSEFORGE_API_KEY'' = []
            \<or> newLib (envOr env ''CURSEFORGE_API_KEY'') \<noteq> Inr ()"
    then show "set coreTools \<inter> set (tools server) = {}"
      unfolding t using core_disjoint by auto
  }
  {
    assume "envOr env ''CURSEFORGE_AUTHOR_TOKEN'' \<noteq> []"
    then show "set uploadTools \<subseteq> set (tools server)" unfolding t by auto
  }
  {
    assume "envOr env ''CURSEFORGE_AUTHOR_TOKEN'' = []"
    then show "set uploadTools \<inter> set (tools server) = {}"
      unfolding t using upload_disjoint by auto
  }
  show "set cfwidgetTools \<subseteq> set (tools server)" unfolding t by auto
  show "set webTools \<subseteq> set (tools server)" unfolding t by auto
next
  assume "\<not> (\<exists>d. files (cookiesPath (loadConfig env root)) = Some (File d)
              \<and> JSON_parse js d = Inr Null)"
  from createServer_result [of files env root js newLib rookie, OF this]
  show "\<exists>server webClient files1.
               createServer env root newLib js rookie files = Inr (server, webClient, files1)"
    by blast
qed

text \<open>
  C1 as it is stated fails where it says that with no secret only the public group is
  registered. With no API key, no author token, no session file and no browser to take
  cookies from, the server registers the two CFWidget tools and the eight web tools, the
  session-requiring ones among them.
\<close>

theorem createServer_counterexample:
  "\<exists>server webClient files1.
      createServer noSecrets [''srv''] (\<lambda>k. Inr ()) exampleJson (None :: unit rookieApi option)
        emptyFs = Inr (server, webClient, files1)
    \<and> envOr noSecrets ''CURSEFORGE_API_KEY'' = []
    \<and> envOr noSecrets ''CURSEFORGE_AUTHOR_TOKEN'' = []
    \<and> cookies webClient = Entries []
    \<and> tools server
        = [''get_project'', ''search_author'', ''cf_set_cookies'', ''cf_auto_extract_cookies'',
           ''get_comments'', ''post_comment'', ''delete_comment'', ''get_project_settings'',
           ''update_project_description'', ''cf_fetch_page'']"
proof -
  have "cookies exampleClient = Entries []" by (simp add: exampleClient_def)
  moreover have "tools \<lparr>tools = cfwidgetTools @ webTools\<rparr>
      = [''get_project'', ''search_author'', ''cf_set_cookies'', ''cf_auto_extract_cookies'',
           ''get_comments'', ''post_comment'', ''delete_comment'', ''get_project_settings'',
           ''update_project_description'', ''cf_fetch_page'']"
    by (simp add: cfwidgetTools_def webTools_def)
  moreover have "envOr noSecrets ''CURSEFORGE_API_KEY'' = []"
    "envOr noSecrets ''CURSEFORGE_AUTHOR_TOKEN'' = []"
    by (simp_all add: envOr_def noSecrets_def)
  ultimately show ?thesis using example_no_secrets by blast
qed

theorem createServer_registers_witness:
  "(\<exists>server webClient files1.
      createServer keyOnly [''srv''] (\<lambda>k. Inr ()) exampleJson (None :: unit rookieApi option)
        emptyFs = Inr (server, webClient, files1)
    \<and> tools server = coreTools @ cfwidgetTools @ webTools)
   \<and> (\<exists>server webClient files1.
      createServer keyAndToken [''srv''] (\<lambda>k. Inr ()) exampleJson (Some exampleRookie) emptyFs
        = Inr (server, webClient, files1)
    \<and> tools server = coreTools @ cfwidgetTools @ uploadTools @ webTools)
   \<and> (\<exists>server webClient files1.
      createServer keyOnly [''srv''] (\<lambda>k. Inl (Error ''bad key'')) exampleJson
        (None :: unit rookieApi option) emptyFs = Inr (server, webClient, files1)
    \<and> tools server = cfwidgetTools @ webTools)"
proof -
  have k1: "envOr keyOnly ''CURSEFORGE_API_KEY'' = ''k1''"
    "envOr keyOnly ''CURSEFORGE_AUTHOR_TOKEN'' = []"
    by (simp_all add: envOr_def keyOnly_def)
  have k2: "envOr keyAndToken ''CURSEFORGE_API_KEY'' = ''k1''"
    "envOr keyAndToken ''CURSEFORGE_AUTHOR_TOKEN'' = ''t1''"
    by (simp_all add: envOr_def keyAndToken_def)
  have n: "\<And>env. \<not> (\<exists>d. emptyFs (cookiesPath (loadConfig env [''srv''])) = Some (File d)
              \<and> JSON_parse exampleJson d = Inr Null)"
    by (simp add: loadConfig_def emptyFs_def)
  note A = createServer_registers [of keyOnly "[''srv'']" "\<lambda>k. Inr ()" exampleJson
      "None :: unit rookieApi option" emptyFs]
  from A [THEN conjunct2, rule_format, OF n]
  obtain s1 w1 f1 where c1: "createServer keyOnly [''srv''] (\<lambda>k. Inr ()) exampleJson
      (None :: unit rookieApi option) emptyFs = Inr (s1, w1, f1)" by blast
  from A [THEN conjunct1, rule_format, OF c1, THEN conjunct1]
  have "tools s1 = coreTools @ cfwidgetTools @ webTools" unfolding k1 by simp
  with c1 have 1: "\<exists>server webClient files1.
      createServer keyOnly [''srv''] (\<lambda>k. Inr ()) exampleJson (None :: unit rookieApi option)
        emptyFs = Inr (server, webClient, files1)
    \<and> tools server = coreTools @ cfwidgetTools @ webTools"
    by blast
  note B = createServer_registers [of keyAndToken "[''srv'']" "\<lambda>k. Inr ()" exampleJson
      "Some exampleRookie" emptyFs]
  from B [THEN conjunct2, rule_format, OF n]
  obtain s2 w2 f2 where c2: "createServer keyAndToken [''srv''] (\<lambda>k. Inr ()) exampleJson
      (Some exampleRookie) emptyFs = Inr (s2, w2, f2)" by blast
  from B [THEN conjunct1, rule_format, OF c2, THEN conjunct1]
  have "tools s2 = coreTools @ cfwidgetTools @ uploadTools @ webTools" unfolding k2 by simp
  with c2 have 2: "\<exists>server webClient files1.
      createServer keyAndToken [''srv''] (\<lambda>k. Inr ()) exampleJson (Some exampleRookie) emptyFs
        = Inr (server, webClient, files1)
    \<and> tools server = coreTools @ cfwidgetTools @ uploadTools @ webTools"
    by blast
  note C = createServer_registers [of keyOnly "[''srv'']" "\<lambda>k. Inl (Error ''bad key'')"
      exampleJson "None :: unit rookieApi option" emptyFs]
  from C [THEN conjunct2, rule_format, OF n]
  obtain s3 w3 f3 where c3: "createServer keyOnly [''srv''] (\<lambda>k. Inl (Error ''bad key''))
      exampleJson (None :: unit rookieApi option) emptyFs = Inr (s3, w3, f3)" by blast
  from C [THEN conjunct1, rule_format, OF c3, THEN conjunct1]
  have "tools s3 = cfwidgetTools @ webTools" unfolding k1 by simp
  with c3 have 3: "\<exists>server webClient files1.
      createServer keyOnly [''srv''] (\<lambda>k. Inl (Error ''bad key'')) exampleJson
        (None :: unit rookieApi option) emptyFs = Inr (server, webClient, files1)
    \<and> tools server = cfwidgetTools @ webTools"
    by blast
  from 1 2 3 show ?thesis by (intro conjI)
qed

text \<open>
  C2. For every input string, \<^verbatim>\<open>setCookiesFromString\<close> splits it at the semicolons (the
  segments joined by semicolons give the string back, and no segment has a semicolon) and
  stores exactly the entries of the trimmed segments that have an \<^verbatim>\<open>=\<close>, in their order,
  each with the domain \<^verbatim>\<open>.curseforge.com\<close> and the path \<^verbatim>\<open>/\<close>; a segment without \<^verbatim>\<open>=\<close>
  is left out and raises nothing: the method throws only when saving the file does.
\<close>

theorem setCookiesFromString_parses:
  "cookies (fst (snd (setCookiesFromString js s this files)))
     = Entries (map entryOf
         (filter (\<lambda>seg. CHR ''='' \<in> set seg) (map trim (split (CHR '';'') s))))
   \<and> join '';'' (split (CHR '';'') s) = s
   \<and> (\<forall>seg \<in> set (split (CHR '';'') s). CHR '';'' \<notin> set seg)
   \<and> (\<exists>cs. cookies (fst (snd (setCookiesFromString js s this files))) = Entries cs
         \<and> (\<forall>c \<in> set cs. domain c = ''.curseforge.com'' \<and> path c = ''/''))
   \<and> fst (setCookiesFromString js s this files)
       = fst (saveCookies js (this\<lparr>cookies := Entries (parseCookieString s)\<rparr>) files)"
proof -
  have c: "cookies (fst (snd (setCookiesFromString js s this files)))
      = Entries (parseCookieString s)"
    by (simp add: setCookiesFromString_def Let_def split_beta)
  have d: "\<forall>c \<in> set (parseCookieString s). domain c = ''.curseforge.com'' \<and> path c = ''/''"
    by (auto simp: parseCookieString_eq entryOf_def)
  have e: "fst (setCookiesFromString js s this files)
       = fst (saveCookies js (this\<lparr>cookies := Entries (parseCookieString s)\<rparr>) files)"
    by (simp add: setCookiesFromString_def Let_def split_beta)
  from c d e show ?thesis
    by (simp add: parseCookieString_eq [symmetric] join_split split_no_sep)
qed

theorem setCookiesFromString_parses_witness:
  "cookies (fst (snd (setCookiesFromString exampleJson ''a=1; b=2; malformed; c=3''
      exampleClient emptyFs)))
   = Entries
     [\<lparr>name = ''a'', value' = ''1'', domain = ''.curseforge.com'', path = ''/''\<rparr>,
      \<lparr>name = ''b'', value' = ''2'', domain = ''.curseforge.com'', path = ''/''\<rparr>,
      \<lparr>name = ''c'', value' = ''3'', domain = ''.curseforge.com'', path = ''/''\<rparr>]"
proof -
  have "map entryOf (filter (\<lambda>seg. CHR ''='' \<in> set seg)
          (map trim (split (CHR '';'') ''a=1; b=2; malformed; c=3'')))
   = [\<lparr>name = ''a'', value' = ''1'', domain = ''.curseforge.com'', path = ''/''\<rparr>,
      \<lparr>name = ''b'', value' = ''2'', domain = ''.curseforge.com'', path = ''/''\<rparr>,
      \<lparr>name = ''c'', value' = ''3'', domain = ''.curseforge.com'', path = ''/''\<rparr>]"
    by (simp add: entryOf_def trim_def isWhiteSpace_def)
  with setCookiesFromString_parses [of exampleJson "''a=1; b=2; malformed; c=3''"
      exampleClient emptyFs, THEN conjunct1]
  show ?thesis by simp
qed

text \<open>
  C3. For every cookie set, the anti-forgery token lookup returns the value of the first
  cookie, in the stored order, whose name equals \<^verbatim>\<open>XSRF-TOKEN\<close> or \<^verbatim>\<open>X-XSRF-TOKEN\<close> up to
  case when there is such a cookie, whatever other cookies are stored, and returns absent
  when no cookie has either name.
\<close>

theorem getXsrfToken_first_match:
  "((\<exists>c \<in> set cs.
        equalsIgnoreCase (name c) ''XSRF-TOKEN'' \<or> equalsIgnoreCase (name c) ''X-XSRF-TOKEN'')
    \<longrightarrow> (\<exists>i < length cs.
          (equalsIgnoreCase (name (cs ! i)) ''XSRF-TOKEN''
            \<or> equalsIgnoreCase (name (cs ! i)) ''X-XSRF-TOKEN'')
        \<and> (\<forall>j < i. \<not> equalsIgnoreCase (name (cs ! j)) ''XSRF-TOKEN''
                  \<and> \<not> equalsIgnoreCase (name (cs ! j)) ''X-XSRF-TOKEN'')
        \<and> getXsrfToken cs = Some (value' (cs ! i))))
   \<and> ((\<forall>c \<in> set cs.
        \<not> equalsIgnoreCase (name c) ''XSRF-TOKEN'' \<and> \<not> equalsIgnoreCase (name c) ''X-XSRF-TOKEN'')
    \<longrightarrow> getXsrfToken cs = None)"
proof (intro conjI impI)
  assume "\<exists>c \<in> set cs.
    equalsIgnoreCase (name c) ''XSRF-TOKEN'' \<or> equalsIgnoreCase (name c) ''X-XSRF-TOKEN''"
  then have "\<exists>c. c \<in> set cs \<and> isXsrfCookie c"
    by (auto simp: isXsrfCookie_ignoreCase)
  then have "find isXsrfCookie cs \<noteq> None"
    by (simp add: find_None_iff)
  then obtain x where x: "find isXsrfCookie cs = Some x"
    by auto
  then obtain i where i: "i < length cs" "isXsrfCookie (cs ! i)" "x = cs ! i"
    "\<forall>j < i. \<not> isXsrfCookie (cs ! j)"
    unfolding find_first_index by blast
  have "getXsrfToken cs = Some (value' (cs ! i))"
    using x i(3) by (simp add: getXsrfToken_def)
  with i(1,2,4) show "\<exists>i < length cs.
          (equalsIgnoreCase (name (cs ! i)) ''XSRF-TOKEN''
            \<or> equalsIgnoreCase (name (cs ! i)) ''X-XSRF-TOKEN'')
        \<and> (\<forall>j < i. \<not> equalsIgnoreCase (name (cs ! j)) ''XSRF-TOKEN''
                  \<and> \<not> equalsIgnoreCase (name (cs ! j)) ''X-XSRF-TOKEN'')
        \<and> getXsrfToken cs = Some (value' (cs ! i))"
    unfolding isXsrfCookie_ignoreCase by blast
next
  assume "\<forall>c \<in> set cs.
    \<not> equalsIgnoreCase (name c) ''XSRF-TOKEN'' \<and> \<not> equalsIgnoreCase (name c) ''X-XSRF-TOKEN''"
  then have "\<not> (\<exists>c. c \<in> set cs \<and> isXsrfCookie c)"
    by (auto simp: isXsrfCookie_ignoreCase)
  then have "find isXsrfCookie cs = None"
    by (simp add: find_None_iff)
  then show "getXsrfToken cs = None"
    by (simp add: getXsrfToken_def)
qed

theorem getXsrfToken_first_match_witness:
  "getXsrfToken exampleCookies = Some ''t1'' \<and> getXsrfToken (take 1 exampleCookies) = None"
proof -
  have h1: "\<exists>c \<in> set exampleCookies.
      equalsIgnoreCase (name c) ''XSRF-TOKEN'' \<or> equalsIgnoreCase (name c) ''X-XSRF-TOKEN''"
    by (simp add: exampleCookies_def equalsIgnoreCase_def toUpperCase_def upperChar_def)
  have h2: "\<forall>c \<in> set (take 1 exampleCookies).
      \<not> equalsIgnoreCase (name c) ''XSRF-TOKEN'' \<and> \<not> equalsIgnoreCase (name c) ''X-XSRF-TOKEN''"
    by (simp add: exampleCookies_def equalsIgnoreCase_def toUpperCase_def upperChar_def)
  from getXsrfToken_first_match [of exampleCookies] h1
  obtain i where i: "i < length exampleCookies"
      "\<forall>j < i. \<not> equalsIgnoreCase (name (exampleCookies ! j)) ''XSRF-TOKEN''
                  \<and> \<not> equalsIgnoreCase (name (exampleCookies ! j)) ''X-XSRF-TOKEN''"
      "getXsrfToken exampleCookies = Some (value' (exampleCookies ! i))"
      "equalsIgnoreCase (name (exampleCookies ! i)) ''XSRF-TOKEN''
            \<or> equalsIgnoreCase (name (exampleCookies ! i)) ''X-XSRF-TOKEN''"
    by blast
  have "i = 1"
  proof -
    have "i < 3" using i(1) by (simp add: exampleCookies_def)
    then consider "i = 0" | "i = 1" | "i = 2" by linarith
    then show ?thesis
    proof cases
      case 1
      with i(4) show ?thesis
        by (simp add: exampleCookies_def equalsIgnoreCase_def toUpperCase_def upperChar_def)
    next
      case 2 then show ?thesis .
    next
      case 3
      with i(2) have "\<not> equalsIgnoreCase (name (exampleCookies ! 1)) ''XSRF-TOKEN''" by simp
      then show ?thesis
        by (simp add: exampleCookies_def equalsIgnoreCase_def toUpperCase_def upperChar_def)
    qed
  qed
  with i(3) have r1: "getXsrfToken exampleCookies = Some ''t1''"
    by (simp add: exampleCookies_def)
  from getXsrfToken_first_match [of "take 1 exampleCookies"] h2
  have r2: "getXsrfToken (take 1 exampleCookies) = None" by blast
  from r1 r2 show ?thesis by blast
qed

text \<open>
  C4. When the JSON built-ins give a cookie list back from its own text, \<^verbatim>\<open>setCookies\<close>
  that returns has written that text as the whole contents of the session file, in a
  directory that exists, and a client constructed afterwards on those files holds the same
  list: every field of every entry, in the same order. \<^verbatim>\<open>setCookiesFromString\<close> and
  \<^verbatim>\<open>autoExtractCookies\<close> write the file in the same way, and on a file system that lets
  the session file be written the three operations return normally, the directory being
  created when it is absent.
\<close>

theorem setCookies_persists:
  fixes rookie :: "'x rookieApi option"
  assumes rt: "JSON_parse js (JSON_stringify js (Entries cs)) = Inr (Entries cs)"
  shows
   "(\<forall>this1 files1. setCookies js cs this files = (Inr (), this1, files1) \<longrightarrow>
        cookies this1 = Entries cs
      \<and> files1 (cookiesPath (config this)) = Some (File (JSON_stringify js (Entries cs)))
      \<and> files1 (dirname (cookiesPath (config this))) = Some Dir
      \<and> newWebClient js files1 (config this) = Inr \<lparr>cookies = Entries cs, config = config this\<rparr>)
    \<and> (writable files (cookiesPath (config this)) \<longrightarrow>
          fst (setCookies js cs this files) = Inr ())
    \<and> (\<forall>this1 files1. setCookiesFromString js s this files = (Inr (), this1, files1) \<longrightarrow>
        files1 (cookiesPath (config this)) = Some (File (JSON_stringify js (cookies this1)))
      \<and> files1 (dirname (cookiesPath (config this))) = Some Dir)
    \<and> (writable files (cookiesPath (config this)) \<longrightarrow>
          fst (setCookiesFromString js s this files) = Inr ())
    \<and> (\<forall>result. extractCookies rookie = Inr result \<and> cookies' result \<noteq> []
          \<and> writable files (cookiesPath (config this)) \<longrightarrow>
        (\<exists>msg files1.
            autoExtractCookies js rookie this files
              = (Inr msg, this\<lparr>cookies := Entries (cookies' result)\<rparr>, files1)
          \<and> files1 (cookiesPath (config this))
              = Some (File (JSON_stringify js (Entries (cookies' result))))
          \<and> files1 (dirname (cookiesPath (config this))) = Some Dir))"
proof (intro conjI allI impI)
  fix this1 files1
  assume a: "setCookies js cs this files = (Inr (), this1, files1)"
  note s = setCookies_success [OF a]
  from s show "cookies this1 = Entries cs" by simp
  from s show f: "files1 (cookiesPath (config this)) = Some (File (JSON_stringify js (Entries cs)))"
    by simp
  from s show "files1 (dirname (cookiesPath (config this))) = Some Dir" by simp
  from reload_after_save [of files1 "config this" "JSON_stringify js (Entries cs)" js "Entries cs", OF f rt]
  show "newWebClient js files1 (config this) = Inr \<lparr>cookies = Entries cs, config = config this\<rparr>" .
next
  assume w: "writable files (cookiesPath (config this))"
  then have "writable files (cookiesPath (config (this\<lparr>cookies := Entries cs\<rparr>)))" by simp
  from saveCookies_writable [OF this, of js]
  show "fst (setCookies js cs this files) = Inr ()"
    by (simp add: setCookies_def Let_def split_beta)
next
  fix this1 files1
  assume a: "setCookiesFromString js s this files = (Inr (), this1, files1)"
  note r = setCookiesFromString_success [OF a]
  from r show "files1 (cookiesPath (config this))
      = Some (File (JSON_stringify js (cookies this1)))" by simp
  from r show "files1 (dirname (cookiesPath (config this))) = Some Dir" by simp
next
  assume w: "writable files (cookiesPath (config this))"
  then have "writable files (cookiesPath (config (this\<lparr>cookies := Entries (parseCookieString s)\<rparr>)))"
    by simp
  from saveCookies_writable [OF this, of js]
  show "fst (setCookiesFromString js s this files) = Inr ()"
    by (simp add: setCookiesFromString_def Let_def split_beta)
next
  fix result
  assume a: "extractCookies rookie = Inr result \<and> cookies' result \<noteq> []
          \<and> writable files (cookiesPath (config this))"
  let ?this1 = "this\<lparr>cookies := Entries (cookies' result)\<rparr>"
  from a have "writable files (cookiesPath (config ?this1))" by simp
  from saveCookies_writable [OF this, of js]
  obtain files1 where sv: "saveCookies js ?this1 files = (Inr (), files1)"
    by (cases "saveCookies js ?this1 files") auto
  from saveCookies_written [OF sv] autoExtractCookies_adopts [OF _ _ sv] a
  show "\<exists>msg files1.
            autoExtractCookies js rookie this files = (Inr msg, ?this1, files1)
          \<and> files1 (cookiesPath (config this))
              = Some (File (JSON_stringify js (Entries (cookies' result))))
          \<and> files1 (dirname (cookiesPath (config this))) = Some Dir"
    by auto
qed

theorem setCookies_persists_witness:
  "\<exists>this1 files1.
      setCookies exampleJson exampleCookies exampleClient emptyFs = (Inr (), this1, files1)
    \<and> files1 [''srv'', ''.auth''] = Some Dir
    \<and> files1 [''srv'', ''.auth'', ''cookies.json'']
        = Some (File (exampleStringify exampleCookies))
    \<and> newWebClient exampleJson files1 exampleConfig
        = Inr \<lparr>cookies = Entries exampleCookies, config = exampleConfig\<rparr>"
proof -
  note T = setCookies_persists [OF example_roundtrip, of exampleClient emptyFs "''a=1''"
      "None :: unit rookieApi option"]
  from T [THEN conjunct2, THEN conjunct1] example_writable
  have "fst (setCookies exampleJson exampleCookies exampleClient emptyFs) = Inr ()"
    by (rule mp)
  then obtain this1 files1
    where r: "setCookies exampleJson exampleCookies exampleClient emptyFs
              = (Inr (), this1, files1)"
    by (cases "setCookies exampleJson exampleCookies exampleClient emptyFs") auto
  from T [THEN conjunct1, rule_format, OF r] have
    "files1 (cookiesPath (config exampleClient))
        = Some (File (JSON_stringify exampleJson (Entries exampleCookies)))
     \<and> files1 (dirname (cookiesPath (config exampleClient))) = Some Dir
     \<and> newWebClient exampleJson files1 (config exampleClient)
        = Inr \<lparr>cookies = Entries exampleCookies, config = config exampleClient\<rparr>"
    by simp
  then have
    "files1 [''srv'', ''.auth''] = Some Dir
    \<and> files1 [''srv'', ''.auth'', ''cookies.json'']
        = Some (File (exampleStringify exampleCookies))
    \<and> newWebClient exampleJson files1 exampleConfig
        = Inr \<lparr>cookies = Entries exampleCookies, config = exampleConfig\<rparr>"
    by (simp add: exampleClient_def exampleConfig_path dirname_def exampleJson_def)
  with r show ?thesis by blast
qed






text \<open>
  C7. Loading itself never throws, and a session file that is missing or does not parse
  gives the empty cookie set. A session file that holds the JSON text \<^verbatim>\<open>null\<close> does parse:
  loading then stores \<^verbatim>\<open>null\<close> as the cookie set, \<^verbatim>\<open>hasCookies\<close> throws on it in
  \<^verbatim>\<open>init\<close>, outside every \<^verbatim>\<open>try\<close>, and the start of the server fails with that error,
  where the claim says that a corrupt session file is treated as no session and is never a
  crash. The program is evaluated at that file and, for comparison, at a session file
  that does not parse and at a missing one.
\<close>

theorem loadCookies_null_crash:
  "newWebClient exampleJson nullFs exampleConfig = Inr \<lparr>cookies = Null, config = exampleConfig\<rparr>
   \<and> hasCookies \<lparr>cookies = Null, config = exampleConfig\<rparr>
       = Inl (Error ''Cannot read properties of null (reading 'length')'')
   \<and> init exampleJson (None :: unit rookieApi option)
         \<lparr>cookies = Null, config = exampleConfig\<rparr> nullFs
       = (Inl (Error ''Cannot read properties of null (reading 'length')''),
          \<lparr>cookies = Null, config = exampleConfig\<rparr>, nullFs)
   \<and> createServer noSecrets [''srv''] (\<lambda>k. Inr ()) exampleJson (None :: unit rookieApi option)
         nullFs
       = Inl (Error ''Cannot read properties of null (reading 'length')'')
   \<and> newWebClient exampleJson corruptFs exampleConfig
       = Inr \<lparr>cookies = Entries [], config = exampleConfig\<rparr>
   \<and> newWebClient exampleJson emptyFs exampleConfig
       = Inr \<lparr>cookies = Entries [], config = exampleConfig\<rparr>"
proof (intro conjI)
  have p: "nullFs (cookiesPath exampleConfig) = Some (File ''null'')"
    by (simp add: nullFs_def exampleConfig_path)
  have j: "JSON_parse exampleJson ''null'' = Inr Null"
    by (simp add: exampleJson_def exampleStringify_def exampleCookies_def)
  show "newWebClient exampleJson nullFs exampleConfig
      = Inr \<lparr>cookies = Null, config = exampleConfig\<rparr>"
    by (rule reload_after_save [of nullFs exampleConfig "''null''" exampleJson Null, OF p j])
  show "hasCookies \<lparr>cookies = Null, config = exampleConfig\<rparr>
       = Inl (Error ''Cannot read properties of null (reading 'length')'')"
    by (rule hasCookies_null) simp
  show "init exampleJson (None :: unit rookieApi option)
         \<lparr>cookies = Null, config = exampleConfig\<rparr> nullFs
       = (Inl (Error ''Cannot read properties of null (reading 'length')''),
          \<lparr>cookies = Null, config = exampleConfig\<rparr>, nullFs)"
    by (rule init_null) simp
  have q: "nullFs (cookiesPath (loadConfig noSecrets [''srv''])) = Some (File ''null'')"
    by (simp add: nullFs_def example_null_path)
  show "createServer noSecrets [''srv''] (\<lambda>k. Inr ()) exampleJson
         (None :: unit rookieApi option) nullFs
       = Inl (Error ''Cannot read properties of null (reading 'length')'')"
    by (rule createServer_null [of nullFs noSecrets "[''srv'']" "''null''" exampleJson, OF q j])
  have c: "corruptFs (cookiesPath exampleConfig) = Some (File ''{oops'')"
    by (simp add: corruptFs_def exampleConfig_path)
  have e: "JSON_parse exampleJson ''{oops'' = Inl (Error ''SyntaxError: Unexpected token'')"
    by (simp add: exampleJson_def exampleStringify_def exampleCookies_def)
  show "newWebClient exampleJson corruptFs exampleConfig
       = Inr \<lparr>cookies = Entries [], config = exampleConfig\<rparr>"
    using c e
    by (simp add: newWebClient_def loadCookies_def existsSync_def readFileSync_def
        tryCatch_def bind_def)
  show "newWebClient exampleJson emptyFs exampleConfig
       = Inr \<lparr>cookies = Entries [], config = exampleConfig\<rparr>"
    by (simp add: newWebClient_def loadCookies_def existsSync_def emptyFs_def
        exampleConfig_path)
qed

text \<open>
  C8 (amended). Every call of the upload client that receives a response that is not
  \<^verbatim>\<open>ok\<close> throws. The error of the two version queries has the status and the address
  of the response in its message and nothing of the body. \<^verbatim>\<open>uploadFile\<close> reads the body
  of the response: when the body can be read, its error has the status and the whole body
  in its message, whatever the length of the body (when reading the body throws, the call
  throws what the reading throws). No call is repeated: each hands at most one request to
  \<^verbatim>\<open>fetch\<close>.
\<close>

theorem upload_errors:
  "(\<forall>res u. (u = BASE_URL @ ''/api/game/versions'' \<or> u = BASE_URL @ ''/api/game/version-types'')
        \<and> fetch h \<lparr>url = u, method' = ''GET'', headers = uploadHeaders h this, body = NoBody\<rparr>
            = Inr res
        \<and> \<not> ok res \<longrightarrow>
        uploadGet h this u sent
          = (Inl (Error (''Upload API error '' @ showNat (status res) @ '' at '' @ resUrl res)),
             sent @ [\<lparr>url = u, method' = ''GET'', headers = uploadHeaders h this,
                      body = NoBody\<rparr>])
      \<and> includes' (''Upload API error '' @ showNat (status res) @ '' at '' @ resUrl res)
          (showNat (status res)))
   \<and> getGameVersions h this sent = uploadGet h this (BASE_URL @ ''/api/game/versions'') sent
   \<and> getGameVersionTypes h this sent
       = uploadGet h this (BASE_URL @ ''/api/game/version-types'') sent
   \<and> (\<forall>fileBuffer req res errorText.
        readFileSync files filePath = Inr fileBuffer
        \<and> req = \<lparr>url = BASE_URL @ ''/api/projects/'' @ showInt projectId @ ''/upload-file'',
                  method' = ''POST'',
                  headers = [(''X-Api-Token'', token this), (''User-Agent'', USER_AGENT h)],
                  body = FormData [(''metadata'', Field (stringify h metadata)),
                                   (''file'', Blob fileBuffer (basename filePath))]\<rparr>
        \<and> fetch h req = Inr res \<and> \<not> ok res \<and> text' res = Inr errorText \<longrightarrow>
        uploadFile h files this projectId filePath metadata sent
          = (Inl (Error (''Upload failed ('' @ showNat (status res) @ ''): '' @ errorText)),
             sent @ [req])
      \<and> includes' (''Upload failed ('' @ showNat (status res) @ ''): '' @ errorText)
          (showNat (status res))
      \<and> includes' (''Upload failed ('' @ showNat (status res) @ ''): '' @ errorText) errorText
      \<and> length errorText
          < length (''Upload failed ('' @ showNat (status res) @ ''): '' @ errorText))
   \<and> (\<forall>fileBuffer req res e.
        readFileSync files filePath = Inr fileBuffer
        \<and> req = \<lparr>url = BASE_URL @ ''/api/projects/'' @ showInt projectId @ ''/upload-file'',
                  method' = ''POST'',
                  headers = [(''X-Api-Token'', token this), (''User-Agent'', USER_AGENT h)],
                  body = FormData [(''metadata'', Field (stringify h metadata)),
                                   (''file'', Blob fileBuffer (basename filePath))]\<rparr>
        \<and> fetch h req = Inr res \<and> \<not> ok res \<and> text' res = Inl e \<longrightarrow>
        uploadFile h files this projectId filePath metadata sent = (Inl e, sent @ [req]))
   \<and> (snd (uploadFile h files this projectId filePath metadata sent) = sent
       \<or> (\<exists>req. snd (uploadFile h files this projectId filePath metadata sent) = sent @ [req]))
   \<and> (\<exists>req. snd (getGameVersions h this sent) = sent @ [req])
   \<and> (\<exists>req. snd (getGameVersionTypes h this sent) = sent @ [req])"
proof (intro conjI allI impI)
  fix res u
  assume a: "(u = BASE_URL @ ''/api/game/versions'' \<or> u = BASE_URL @ ''/api/game/version-types'')
        \<and> fetch h \<lparr>url = u, method' = ''GET'', headers = uploadHeaders h this, body = NoBody\<rparr>
            = Inr res
        \<and> \<not> ok res"
  from uploadGet_not_ok [OF a [THEN conjunct2, THEN conjunct1] a [THEN conjunct2, THEN conjunct2]]
  show "uploadGet h this u sent
          = (Inl (Error (''Upload API error '' @ showNat (status res) @ '' at '' @ resUrl res)),
             sent @ [\<lparr>url = u, method' = ''GET'', headers = uploadHeaders h this,
                      body = NoBody\<rparr>])" .
  show "includes' (''Upload API error '' @ showNat (status res) @ '' at '' @ resUrl res)
          (showNat (status res))"
    by (rule includes_versions_status)
next
  show "getGameVersions h this sent = uploadGet h this (BASE_URL @ ''/api/game/versions'') sent"
    by (simp add: getGameVersions_def)
  show "getGameVersionTypes h this sent
       = uploadGet h this (BASE_URL @ ''/api/game/version-types'') sent"
    by (simp add: getGameVersionTypes_def)
next
  fix fileBuffer req res errorText
  assume a: "readFileSync files filePath = Inr fileBuffer
        \<and> req = \<lparr>url = BASE_URL @ ''/api/projects/'' @ showInt projectId @ ''/upload-file'',
                  method' = ''POST'',
                  headers = [(''X-Api-Token'', token this), (''User-Agent'', USER_AGENT h)],
                  body = FormData [(''metadata'', Field (stringify h metadata)),
                                   (''file'', Blob fileBuffer (basename filePath))]\<rparr>
        \<and> fetch h req = Inr res \<and> \<not> ok res \<and> text' res = Inr errorText"
  from uploadFile_not_ok [OF a [THEN conjunct1] a [THEN conjunct2, THEN conjunct1]
      a [THEN conjunct2, THEN conjunct2, THEN conjunct1]
      a [THEN conjunct2, THEN conjunct2, THEN conjunct2, THEN conjunct1]
      a [THEN conjunct2, THEN conjunct2, THEN conjunct2, THEN conjunct2]]
  show "uploadFile h files this projectId filePath metadata sent
          = (Inl (Error (''Upload failed ('' @ showNat (status res) @ ''): '' @ errorText)),
             sent @ [req])" .
  show "includes' (''Upload failed ('' @ showNat (status res) @ ''): '' @ errorText)
          (showNat (status res))"
    by (rule includes_upload_status)
  show "includes' (''Upload failed ('' @ showNat (status res) @ ''): '' @ errorText) errorText"
    by (rule includes_upload_text)
  show "length errorText
          < length (''Upload failed ('' @ showNat (status res) @ ''): '' @ errorText)"
    by simp
next
  fix fileBuffer req res e
  assume a: "readFileSync files filePath = Inr fileBuffer
        \<and> req = \<lparr>url = BASE_URL @ ''/api/projects/'' @ showInt projectId @ ''/upload-file'',
                  method' = ''POST'',
                  headers = [(''X-Api-Token'', token this), (''User-Agent'', USER_AGENT h)],
                  body = FormData [(''metadata'', Field (stringify h metadata)),
                                   (''file'', Blob fileBuffer (basename filePath))]\<rparr>
        \<and> fetch h req = Inr res \<and> \<not> ok res \<and> text' res = Inl e"
  from uploadFile_unreadable [OF a [THEN conjunct1] a [THEN conjunct2, THEN conjunct1]
      a [THEN conjunct2, THEN conjunct2, THEN conjunct1]
      a [THEN conjunct2, THEN conjunct2, THEN conjunct2, THEN conjunct1]
      a [THEN conjunct2, THEN conjunct2, THEN conjunct2, THEN conjunct2]]
  show "uploadFile h files this projectId filePath metadata sent = (Inl e, sent @ [req])" .
next
  show "snd (uploadFile h files this projectId filePath metadata sent) = sent
       \<or> (\<exists>req. snd (uploadFile h files this projectId filePath metadata sent) = sent @ [req])"
    by (rule uploadFile_sent)
  show "\<exists>req. snd (getGameVersions h this sent) = sent @ [req]"
    by (simp add: getGameVersions_def uploadGet_sent)
  show "\<exists>req. snd (getGameVersionTypes h this sent) = sent @ [req]"
    by (simp add: getGameVersionTypes_def uploadGet_sent)
qed

text \<open>
  C8 as it is stated, a bounded excerpt of the body in every such error, fails. On a
  \<open>404\<close> with an HTML body the error of \<^verbatim>\<open>getGameVersions\<close> has no \<^verbatim>\<open><\<close> in it, so
  nothing of the body; on a \<open>500\<close> with a body of 600 code units the error of
  \<^verbatim>\<open>uploadFile\<close> carries all 600 of them.
\<close>

theorem upload_errors_counterexample:
  "fst (getGameVersions exampleHttp exampleUpload [])
     = Inl (Error ''Upload API error 404 at https://www.curseforge.com/api/game/versions'')
   \<and> fetch exampleHttp
        \<lparr>url = ''https://www.curseforge.com/api/game/versions'', method' = ''GET'',
         headers = [(''X-Api-Token'', ''secret''), (''User-Agent'', ''Mozilla/5.0'')],
         body = NoBody\<rparr>
       = Inr notFound
   \<and> text' notFound = Inr ''<html>not found</html>''
   \<and> CHR ''<'' \<notin> set ''Upload API error 404 at https://www.curseforge.com/api/game/versions''
   \<and> fst (uploadFile failingHttp uploadFs exampleUpload 7 [''mod.jar''] JNull [])
     = Inl (Error (''Upload failed (500): '' @ replicate 600 (CHR ''x'')))
   \<and> text' serverError = Inr (replicate 600 (CHR ''x''))
   \<and> length (''Upload failed (500): '' @ replicate 600 (CHR ''x'')) = 621"
proof (intro conjI)
  show "fst (getGameVersions exampleHttp exampleUpload [])
     = Inl (Error ''Upload API error 404 at https://www.curseforge.com/api/game/versions'')"
    by (simp add: example_versions)
  show "fetch exampleHttp
        \<lparr>url = ''https://www.curseforge.com/api/game/versions'', method' = ''GET'',
         headers = [(''X-Api-Token'', ''secret''), (''User-Agent'', ''Mozilla/5.0'')],
         body = NoBody\<rparr>
       = Inr notFound"
    by (simp add: exampleHttp_def)
  show "text' notFound = Inr ''<html>not found</html>''"
    by (simp add: notFound_def)
  show "CHR ''<'' \<notin> set ''Upload API error 404 at https://www.curseforge.com/api/game/versions''"
    by simp
  show "fst (uploadFile failingHttp uploadFs exampleUpload 7 [''mod.jar''] JNull [])
     = Inl (Error (''Upload failed (500): '' @ replicate 600 (CHR ''x'')))"
    by (rule example_upload)
  show "text' serverError = Inr (replicate 600 (CHR ''x''))"
    by (simp add: serverError_def)
  show "length (''Upload failed (500): '' @ replicate 600 (CHR ''x'')) = 621"
    by simp
qed

theorem upload_errors_witness:
  "fst (uploadFile failingHttp uploadFs exampleUpload 7 [''mod.jar''] JNull [])
     = Inl (Error (''Upload failed (500): '' @ replicate 600 (CHR ''x'')))
   \<and> fst (uploadGet exampleHttp exampleUpload ''https://www.curseforge.com/api/game/versions'' [])
     = Inl (Error ''Upload API error 404 at https://www.curseforge.com/api/game/versions'')
   \<and> fst (uploadFile brokenHttp uploadFs exampleUpload 7 [''mod.jar''] JNull [])
     = Inl (Error ''terminated'')"
proof -
  note T = upload_errors [of exampleHttp exampleUpload "[]" uploadFs "[''mod.jar'']" 7 JNull]
  let ?u = "''https://www.curseforge.com/api/game/versions''"
  have h1: "(?u = BASE_URL @ ''/api/game/versions'' \<or> ?u = BASE_URL @ ''/api/game/version-types'')
        \<and> fetch exampleHttp \<lparr>url = ?u, method' = ''GET'',
              headers = uploadHeaders exampleHttp exampleUpload, body = NoBody\<rparr> = Inr notFound
        \<and> \<not> ok notFound"
    by (simp add: BASE_URL_def exampleHttp_def ok_def notFound_def)
  from T [THEN conjunct1, rule_format, OF h1, THEN conjunct1]
  have 1: "fst (uploadGet exampleHttp exampleUpload ?u [])
     = Inl (Error ''Upload API error 404 at https://www.curseforge.com/api/game/versions'')"
    by (simp add: notFound_def showNat_404)
  note U = upload_errors [of failingHttp exampleUpload "[]" uploadFs "[''mod.jar'']" 7 JNull]
  let ?req = "\<lparr>url = BASE_URL @ ''/api/projects/'' @ showInt 7 @ ''/upload-file'',
                  method' = ''POST'',
                  headers = [(''X-Api-Token'', token exampleUpload),
                             (''User-Agent'', USER_AGENT failingHttp)],
                  body = FormData [(''metadata'', Field (stringify failingHttp JNull)),
                                   (''file'', Blob ''PK'' (basename [''mod.jar'']))]\<rparr>"
  have h2: "readFileSync uploadFs [''mod.jar''] = Inr ''PK''
        \<and> ?req = ?req
        \<and> fetch failingHttp ?req = Inr serverError \<and> \<not> ok serverError
        \<and> text' serverError = Inr (replicate 600 (CHR ''x''))"
    by (simp add: readFileSync_def uploadFs_def failingHttp_def ok_def serverError_def)
  from U [THEN conjunct2, THEN conjunct2, THEN conjunct2, THEN conjunct1, rule_format, OF h2,
      THEN conjunct1]
  have 2: "fst (uploadFile failingHttp uploadFs exampleUpload 7 [''mod.jar''] JNull [])
     = Inl (Error (''Upload failed (500): '' @ replicate 600 (CHR ''x'')))"
    by (simp add: serverError_def showNat_500)
  note V = upload_errors [of brokenHttp exampleUpload "[]" uploadFs "[''mod.jar'']" 7 JNull]
  let ?breq = "\<lparr>url = BASE_URL @ ''/api/projects/'' @ showInt 7 @ ''/upload-file'',
                  method' = ''POST'',
                  headers = [(''X-Api-Token'', token exampleUpload),
                             (''User-Agent'', USER_AGENT brokenHttp)],
                  body = FormData [(''metadata'', Field (stringify brokenHttp JNull)),
                                   (''file'', Blob ''PK'' (basename [''mod.jar'']))]\<rparr>"
  have h3: "readFileSync uploadFs [''mod.jar''] = Inr ''PK''
        \<and> ?breq = ?breq
        \<and> fetch brokenHttp ?breq = Inr brokenBody \<and> \<not> ok brokenBody
        \<and> text' brokenBody = Inl (Error ''terminated'')"
    by (simp add: readFileSync_def uploadFs_def brokenHttp_def ok_def brokenBody_def)
  from V [THEN conjunct2, THEN conjunct2, THEN conjunct2, THEN conjunct2, THEN conjunct1,
      rule_format, OF h3]
  have 3: "fst (uploadFile brokenHttp uploadFs exampleUpload 7 [''mod.jar''] JNull [])
     = Inl (Error ''terminated'')"
    by simp
  from 2 1 3 show ?thesis by (intro conjI)
qed

text \<open>
  C9. With an empty cookie set, the handlers of \<^verbatim>\<open>get_comments\<close>, \<^verbatim>\<open>post_comment\<close>,
  \<^verbatim>\<open>delete_comment\<close>, \<^verbatim>\<open>get_project_settings\<close> and \<^verbatim>\<open>update_project_description\<close>
  return the error result that tells the user to extract cookies first and hand no
  request to \<^verbatim>\<open>fetch\<close>. \<^verbatim>\<open>cf_fetch_page\<close> has no such guard: with an empty cookie
  set it hands its request to \<^verbatim>\<open>fetch\<close>, for \<^verbatim>\<open>GET\<close> and \<^verbatim>\<open>DELETE\<close> always and for
  \<^verbatim>\<open>POST\<close> and \<^verbatim>\<open>PUT\<close> whenever its body argument is absent, empty or parses.
\<close>

theorem no_session_no_request:
  "(cookies this = Entries [] \<longrightarrow>
       get_comments h render this mod_id page page_size sent = (Inr noSession, sent)
     \<and> post_comment h this mod_id comment_text reply_to_id sent = (Inr noSession, sent)
     \<and> delete_comment h this mod_id comment_id sent = (Inr noSession, sent)
     \<and> get_project_settings h this project_id sent = (Inr noSession, sent)
     \<and> update_project_description h this project_id description sent
         = (Inr noSession, sent))
   \<and> noSession
       = \<lparr>content = [''Error: No session cookies. Use cf_auto_extract_cookies first.''],
          isError = Some True\<rparr>
   \<and> (cookies this = Entries [] \<longrightarrow>
       (\<forall>fullUrl. fullUrl = (if startsWith u ''http'' then u else CF_BASE @ u) \<longrightarrow>
          snd (cf_fetch_page h this u GET b sent)
            = sent @ [entriesRequest h [] fullUrl ''GET'' None []]
        \<and> snd (cf_fetch_page h this u DELETE b sent)
            = sent @ [entriesRequest h [] fullUrl ''DELETE'' None []]
        \<and> (\<forall>v. parseBody h b = Inr v \<longrightarrow>
              snd (cf_fetch_page h this u POST b sent)
                = sent @ [entriesRequest h [] fullUrl ''POST'' v []]
            \<and> snd (cf_fetch_page h this u PUT b sent)
                = sent @ [entriesRequest h [] fullUrl ''PUT'' v []])))"
proof (intro conjI allI impI)
  assume c: "cookies this = Entries []"
  then have n: "hasCookies this = Inr False" by (simp add: hasCookies_entries)
  show "get_comments h render this mod_id page page_size sent = (Inr noSession, sent)"
    by (rule guarded_no_session(1) [OF n])
  show "post_comment h this mod_id comment_text reply_to_id sent = (Inr noSession, sent)"
    by (rule guarded_no_session(2) [OF n])
  show "delete_comment h this mod_id comment_id sent = (Inr noSession, sent)"
    by (rule guarded_no_session(3) [OF n])
  show "get_project_settings h this project_id sent = (Inr noSession, sent)"
    by (rule guarded_no_session(4) [OF n])
  show "update_project_description h this project_id description sent = (Inr noSession, sent)"
    by (rule guarded_no_session(5) [OF n])
next
  show "noSession
       = \<lparr>content = [''Error: No session cookies. Use cf_auto_extract_cookies first.''],
          isError = Some True\<rparr>"
    by (rule noSession_result)
next
  fix fullUrl
  assume c: "cookies this = Entries []"
  assume f: "fullUrl = (if startsWith u ''http'' then u else CF_BASE @ u)"
  have r: "\<And>m v. snd (request h this fullUrl m v [] sent)
      = sent @ [entriesRequest h [] fullUrl m v []]"
    by (rule request_sent) (rule fetchArgs_entries [OF c])
  show "snd (cf_fetch_page h this u GET b sent)
            = sent @ [entriesRequest h [] fullUrl ''GET'' None []]"
    using r [of "''GET''" None] unfolding f by (simp add: cf_fetch_page_sent Let_def)
  show "snd (cf_fetch_page h this u DELETE b sent)
            = sent @ [entriesRequest h [] fullUrl ''DELETE'' None []]"
    using r [of "''DELETE''" None] unfolding f by (simp add: cf_fetch_page_sent Let_def)
  fix v
  assume p: "parseBody h b = Inr v"
  show "snd (cf_fetch_page h this u POST b sent)
                = sent @ [entriesRequest h [] fullUrl ''POST'' v []]"
    using r [of "''POST''" v] unfolding f by (simp add: cf_fetch_page_sent Let_def p)
  show "snd (cf_fetch_page h this u PUT b sent)
                = sent @ [entriesRequest h [] fullUrl ''PUT'' v []]"
    using r [of "''PUT''" v] unfolding f by (simp add: cf_fetch_page_sent Let_def p)
qed

theorem no_session_no_request_witness:
  "get_comments exampleHttp (\<lambda>p d. Inr []) exampleClient 12345 1 20 []
     = (Inr \<lparr>content = [''Error: No session cookies. Use cf_auto_extract_cookies first.''],
             isError = Some True\<rparr>, [])
   \<and> post_comment exampleHttp exampleClient 12345 ''hello'' None []
     = (Inr \<lparr>content = [''Error: No session cookies. Use cf_auto_extract_cookies first.''],
             isError = Some True\<rparr>, [])
   \<and> map url (snd (cf_fetch_page exampleHttp exampleClient ''/api/v1/mods/1/members'' GET None []))
     = [''https://www.curseforge.com/api/v1/mods/1/members'']
   \<and> map url (snd (cf_fetch_page exampleHttp exampleClient ''/api/v1/x'' POST (Some ''{}'') []))
     = [''https://www.curseforge.com/api/v1/x'']"
proof -
  have c: "cookies exampleClient = Entries []" by (simp add: exampleClient_def)
  note T = no_session_no_request [of exampleClient exampleHttp "\<lambda>p d. Inr []" 12345 1 20 "[]"
      "''hello''" None 0 0 "[]"]
  note A = T [THEN conjunct1, rule_format, OF c]
  note N = T [THEN conjunct2, THEN conjunct1]
  from A [THEN conjunct1] N
  have 1: "get_comments exampleHttp (\<lambda>p d. Inr []) exampleClient 12345 1 20 []
     = (Inr \<lparr>content = [''Error: No session cookies. Use cf_auto_extract_cookies first.''],
             isError = Some True\<rparr>, [])" by simp
  from A [THEN conjunct2, THEN conjunct1] N
  have 2: "post_comment exampleHttp exampleClient 12345 ''hello'' None []
     = (Inr \<lparr>content = [''Error: No session cookies. Use cf_auto_extract_cookies first.''],
             isError = Some True\<rparr>, [])" by simp
  have u1: "''https://www.curseforge.com/api/v1/mods/1/members''
      = (if startsWith ''/api/v1/mods/1/members'' ''http'' then ''/api/v1/mods/1/members''
         else CF_BASE @ ''/api/v1/mods/1/members'')"
    by (simp add: startsWith_def CF_BASE_def)
  note B = no_session_no_request [of exampleClient exampleHttp "\<lambda>p d. Inr []" 12345 1 20 "[]"
      "''hello''" None 0 0 "[]" "''/api/v1/mods/1/members''" None,
      THEN conjunct2, THEN conjunct2, rule_format, OF c u1, THEN conjunct1]
  then have 3: "map url (snd (cf_fetch_page exampleHttp exampleClient ''/api/v1/mods/1/members''
      GET None [])) = [''https://www.curseforge.com/api/v1/mods/1/members'']"
    by (simp add: entriesRequest_def)
  have u2: "''https://www.curseforge.com/api/v1/x''
      = (if startsWith ''/api/v1/x'' ''http'' then ''/api/v1/x'' else CF_BASE @ ''/api/v1/x'')"
    by (simp add: startsWith_def CF_BASE_def)
  have p: "parseBody exampleHttp (Some ''{}'') = Inr (Some (JObj []))"
    by (simp add: parseBody_def exampleHttp_def)
  note C = no_session_no_request [of exampleClient exampleHttp "\<lambda>p d. Inr []" 12345 1 20 "[]"
      "''hello''" None 0 0 "[]" "''/api/v1/x''" "Some ''{}''",
      THEN conjunct2, THEN conjunct2, rule_format, OF c u2, THEN conjunct2, THEN conjunct2,
      rule_format, OF p, THEN conjunct1]
  then have 4: "map url (snd (cf_fetch_page exampleHttp exampleClient ''/api/v1/x'' POST
      (Some ''{}'') [])) = [''https://www.curseforge.com/api/v1/x'']"
    by (simp add: entriesRequest_def)
  from 1 2 3 4 show ?thesis by (intro conjI)
qed

text \<open>
  C10. In the model of the browser session, whatever the order in which the first uses of
  the callers and the steps of the launch interleave, the launch is started at most once:
  once any caller has made its first use the count of launches is one and stays one, every
  caller that has made its first use awaits the one initialization in flight or has been
  served, and no caller is left waiting when the session is ready.
\<close>

theorem single_launch:
  "launches (run es) \<le> 1
   \<and> (callers es \<noteq> [] \<longrightarrow> launches (run es) = 1)
   \<and> (callers es = [] \<longrightarrow> launches (run es) = 0)
   \<and> served (run es) @ awaiting (run es) = callers es
   \<and> (session (run es) = Ready \<longrightarrow> awaiting (run es) = [])
   \<and> launches (run (es @ [FirstUse c])) = 1"
proof -
  note I = run_invariant [of es]
  have "callers (es @ [FirstUse c]) \<noteq> []" by (simp add: callers_def)
  with run_invariant [of "es @ [FirstUse c]"]
  have "launches (run (es @ [FirstUse c])) = 1" by (auto split: if_splits)
  with I show ?thesis by (auto split: if_splits)
qed

theorem single_launch_witness:
  "launches (run [FirstUse 1, FirstUse 2]) = 1
   \<and> awaiting (run [FirstUse 1, FirstUse 2]) = [1, 2]
   \<and> session (run [FirstUse 1, FirstUse 2]) = Launching
   \<and> launches (run [FirstUse 1, FirstUse 2, Launched, ChallengeResolved, FirstUse 3]) = 1
   \<and> served (run [FirstUse 1, FirstUse 2, Launched, ChallengeResolved, FirstUse 3]) = [1, 2, 3]"
proof -
  have c: "callers [FirstUse 1, FirstUse 2] \<noteq> []"
    "callers [FirstUse 1, FirstUse 2, Launched, ChallengeResolved, FirstUse 3] \<noteq> []"
    by (simp_all add: callers_def)
  from single_launch [of "[FirstUse 1, FirstUse 2]" 0, THEN conjunct2, THEN conjunct1] c(1)
  have 1: "launches (run [FirstUse 1, FirstUse 2]) = 1" by (rule mp)
  from single_launch [of "[FirstUse 1, FirstUse 2, Launched, ChallengeResolved, FirstUse 3]" 0,
      THEN conjunct2, THEN conjunct1] c(2)
  have 2: "launches (run [FirstUse 1, FirstUse 2, Launched, ChallengeResolved, FirstUse 3]) = 1"
    by (rule mp)
  have 3: "awaiting (run [FirstUse 1, FirstUse 2]) = [1, 2]"
    "session (run [FirstUse 1, FirstUse 2]) = Launching"
    "served (run [FirstUse 1, FirstUse 2, Launched, ChallengeResolved, FirstUse 3]) = [1, 2, 3]"
    by (simp_all add: run_def dispatcher0_def ready_def)
  from 1 2 3 show ?thesis by (intro conjI)
qed

end
